theory Spec2Isabelle
  imports Complex_Main "HOL-Library.AList" "HOL-Library.Multiset"
begin

section \<open>Data model\<close>

text \<open>
  A cell of a pandas column. \<open>isna\<close> treats Python's \<open>None\<close>, numpy's \<open>NaN\<close> and
  \<open>NaT\<close> alike, so the three are one constructor \<open>Null\<close>. Numbers are carried as
  reals: the integer and the float64 columns of the program are not told apart, and float
  arithmetic (the mean of a column, the mean absolute error) is exact arithmetic here.
\<close>

datatype cell = Null | Num real

fun isna :: "cell \<Rightarrow> bool" where
  "isna Null = True"
| "isna (Num x) = False"

text \<open>
  A \<open>pandas.Timestamp\<close>, by the attributes the program reads: \<open>.hour\<close>,
  \<open>.dayofweek\<close> (0 = Monday) and \<open>.month\<close>; \<open>instant\<close> is the point in time that
  \<open>sort_values\<close> orders by.
\<close>

record timestamp =
  instant :: int
  dt_hour :: int
  dt_dayofweek :: int
  dt_month :: int

text \<open>
  A \<open>DataFrame\<close> with arbitrary columns, as \<open>app/\<close> handles it: the length of the index
  and the columns in order, each a label and its cells. Labels are unique in every frame the
  program builds; a column is read by its label (\<open>map_of\<close>), and \<open>X[col] = v\<close> replaces the
  column in place or appends it (\<open>AList.update\<close>).
\<close>

record frame =
  nrows :: nat
  cols :: "(string \<times> cell list) list"

datatype vmsg =
    Timestamp_required
  | Invalid_timestamp_format
  | CSV_missing_timestamp_column
  | Not_enough_valid_data int int
  | Bad_samples

datatype error =
    FileNotFoundError
  | ValueError vmsg
  | KeyError string
  | IndexError
  | TypeError

text \<open>What a route handler of \<open>app/main.py\<close> can end with instead of a response: an
  \<open>HTTPException\<close> it raised itself (status code and detail), or any other exception
  that leaves the handler uncaught.\<close>

datatype exn = HTTPException nat string | Uncaught error

text \<open>The regressor is opaque: \<open>model.predict\<close> is any function from a frame to the
  predictions, one for each row, or to the exception it raises.\<close>

type_synonym model = "frame \<Rightarrow> error + real list"

text \<open>
  A \<open>DataFrame\<close> is an object, and \<open>app/\<close> updates frames in place, so its functions
  work on a heap of frames and pass references, the indices into the heap: a new frame
  (\<open>pd.DataFrame(...)\<close>, \<open>X.copy()\<close>, \<open>X[[...]]\<close>) is allocated at the end, and
  \<open>X[col] = v\<close> replaces the frame at \<open>X\<close>.
\<close>

type_synonym ref = nat
type_synonym heap = "frame list"

definition alloc :: "heap \<Rightarrow> frame \<Rightarrow> heap \<times> ref" where
  "alloc h f = (h @ [f], length h)"

definition labels :: "frame \<Rightarrow> string list" where
  "labels f = map fst (cols f)"

definition getitem :: "frame \<Rightarrow> string \<Rightarrow> error + cell list" where
  "getitem f c = (case map_of (cols f) c of None \<Rightarrow> Inl (KeyError c) | Some v \<Rightarrow> Inr v)"

definition setitem :: "frame \<Rightarrow> string \<Rightarrow> cell list \<Rightarrow> frame" where
  "setitem f c v = f\<lparr>cols := AList.update c v (cols f)\<rparr>"

text \<open>\<open>X[[c1, ..., cn]]\<close>: a new frame of these columns in this order; \<open>KeyError\<close> on
  the first label that the frame does not have.\<close>

fun select_cols :: "(string \<times> cell list) list \<Rightarrow> string list \<Rightarrow> error + (string \<times> cell list) list" where
  "select_cols al [] = Inr []"
| "select_cols al (c # cs) =
     (case map_of al c of
        None \<Rightarrow> Inl (KeyError c)
      | Some v \<Rightarrow> (case select_cols al cs of Inl e \<Rightarrow> Inl e | Inr r \<Rightarrow> Inr ((c, v) # r)))"

definition getitem_list :: "frame \<Rightarrow> string list \<Rightarrow> error + frame" where
  "getitem_list f cs =
     (case select_cols (cols f) cs of Inl e \<Rightarrow> Inl e | Inr r \<Rightarrow> Inr (f\<lparr>cols := r\<rparr>))"

text \<open>The frames the model covers: labels are unique and every column has one cell for each
  row of the index.\<close>

definition wf_frame :: "frame \<Rightarrow> bool" where
  "wf_frame f = (distinct (labels f) \<and> list_all (\<lambda>(c, s). length s = nrows f) (cols f))"

section \<open>\<^verbatim>\<open>app/features.py\<close>\<close>

text \<open>The argument of \<open>_parse_timestamp\<close>: \<open>None\<close>, a string, or a value that is a
  \<open>pandas.Timestamp\<close> already.\<close>

datatype ts_arg = PyNone | PyStr string | PyTimestamp timestamp

text \<open>
  \<open>dateutil.parser.parse\<close> is the parameter \<open>dateparse\<close>: \<open>None\<close> where it raises, the
  parsed instant (as the \<open>pandas.Timestamp\<close> made of it) otherwise.
\<close>

definition parse_timestamp :: "(string \<Rightarrow> timestamp option) \<Rightarrow> ts_arg \<Rightarrow> error + timestamp" where
  "parse_timestamp dateparse ts_str =
     (case ts_str of
        PyNone \<Rightarrow> Inl (ValueError Timestamp_required)
      | PyTimestamp t \<Rightarrow> Inr t
      | PyStr s \<Rightarrow>
          (case dateparse s of
             None \<Rightarrow> Inl (ValueError Invalid_timestamp_format)
           | Some dt \<Rightarrow> Inr dt))"

definition FEATURE_COLS :: "string list" where
  "FEATURE_COLS = [''lag_1'', ''lag_2'', ''hour'', ''day_of_week'', ''month'', ''is_weekend'', ''is_festival'']"

definition make_features ::
  "(string \<Rightarrow> timestamp option) \<Rightarrow> heap \<Rightarrow> ts_arg \<Rightarrow> real option \<Rightarrow> real option \<Rightarrow> int option
     \<Rightarrow> error + heap \<times> ref" where
  "make_features dateparse h ts_arg lag_1 lag_2 is_festival =
     (case parse_timestamp dateparse ts_arg of
        Inl e \<Rightarrow> Inl e
      | Inr ts \<Rightarrow>
          (let hour = dt_hour ts;
               day_of_week = dt_dayofweek ts;
               month = dt_month ts;
               is_weekend = (if day_of_week \<ge> 5 then 1 else 0 :: int)
           in Inr (alloc h
                \<lparr>nrows = 1,
                 cols =
                   [(''lag_1'', [case lag_1 of Some x \<Rightarrow> Num x | None \<Rightarrow> Null]),
                    (''lag_2'', [case lag_2 of Some x \<Rightarrow> Num x | None \<Rightarrow> Null]),
                    (''hour'', [Num (of_int hour)]),
                    (''day_of_week'', [Num (of_int day_of_week)]),
                    (''month'', [Num (of_int month)]),
                    (''is_weekend'', [Num (of_int is_weekend)]),
                    (''is_festival'', [Num (of_int (case is_festival of Some i \<Rightarrow> i | None \<Rightarrow> 0))])]\<rparr>)))"

section \<open>\<^verbatim>\<open>app/model_utils.py\<close>\<close>

definition load_model :: "model option \<Rightarrow> error + model" where
  "load_model model_file = (case model_file of None \<Rightarrow> Inl FileNotFoundError | Some m \<Rightarrow> Inr m)"

text \<open>One turn of the loop of \<open>_ensure_columns\<close>, on the frame at \<open>X\<close>.\<close>

definition ensure_col :: "ref \<Rightarrow> string \<Rightarrow> heap \<Rightarrow> heap" where
  "ensure_col X col h =
     (if col \<notin> set (labels (h ! X)) then
        (if col \<in> set [''lag_1'', ''lag_2'']
         then h[X := setitem (h ! X) col (replicate (nrows (h ! X)) Null)]
         else h[X := setitem (h ! X) col (replicate (nrows (h ! X)) (Num 0))])
      else h)"

definition ensure_columns :: "heap \<Rightarrow> ref \<Rightarrow> error + heap \<times> ref" where
  "ensure_columns h X0 =
     (let (h1, X) = alloc h (h ! X0);
          h2 = fold (ensure_col X) FEATURE_COLS h1
      in case getitem_list (h2 ! X) FEATURE_COLS of
           Inl e \<Rightarrow> Inl e
         | Inr f \<Rightarrow> Inr (alloc h2 f))"

fun nums :: "cell list \<Rightarrow> real list" where
  "nums [] = []"
| "nums (Null # cs) = nums cs"
| "nums (Num x # cs) = x # nums cs"

text \<open>\<open>Series.mean()\<close> skips the null cells.\<close>

definition mean :: "cell list \<Rightarrow> real" where
  "mean s = sum_list (nums s) / real (length (nums s))"

definition fillna :: "cell list \<Rightarrow> real \<Rightarrow> cell list" where
  "fillna s v = map (\<lambda>c. if isna c then Num v else c) s"

text \<open>One turn of the imputation loop of \<open>predict_from_df\<close>, on the frame at \<open>Xp\<close>.\<close>

definition impute_col :: "ref \<Rightarrow> string \<Rightarrow> heap \<Rightarrow> error + heap" where
  "impute_col Xp col h =
     (case getitem (h ! Xp) col of
        Inl e \<Rightarrow> Inl e
      | Inr s \<Rightarrow>
          if list_all isna s
          then Inr (h[Xp := setitem (h ! Xp) col (replicate (nrows (h ! Xp)) (Num 0))])
          else Inr (h[Xp := setitem (h ! Xp) col (fillna s (mean s))]))"

definition impute_lags :: "ref \<Rightarrow> heap \<Rightarrow> error + heap" where
  "impute_lags Xp h =
     (case getitem_list (h ! Xp) [''lag_1'', ''lag_2''] of
        Inl e \<Rightarrow> Inl e
      | Inr lags \<Rightarrow>
          if list_ex (\<lambda>(c, s). list_ex isna s) (cols lags) then
            (case impute_col Xp ''lag_1'' h of
               Inl e \<Rightarrow> Inl e
             | Inr h1 \<Rightarrow> impute_col Xp ''lag_2'' h1)
          else Inr h)"

definition predict_from_df :: "model option \<Rightarrow> heap \<Rightarrow> ref \<Rightarrow> error + heap \<times> real list" where
  "predict_from_df model_file h X =
     (case load_model model_file of
        Inl e \<Rightarrow> Inl e
      | Inr m \<Rightarrow>
          (case ensure_columns h X of
             Inl e \<Rightarrow> Inl e
           | Inr (h1, Xp) \<Rightarrow>
               (case impute_lags Xp h1 of
                  Inl e \<Rightarrow> Inl e
                | Inr h2 \<Rightarrow>
                    (case m (h2 ! Xp) of
                       Inl e \<Rightarrow> Inl e
                     | Inr preds \<Rightarrow> Inr (h2, preds)))))"

section \<open>\<^verbatim>\<open>app/main.py\<close>\<close>

record predict_request =
  req_timestamp :: string
  req_lag_1 :: "real option"
  req_lag_2 :: "real option"
  req_is_festival :: "int option"

record predict_response =
  prediction :: real
  input :: "(string \<times> cell) list"

text \<open>\<open>X.to_dict(orient="records")[0]\<close>: the first row as a dictionary from label to cell.\<close>

definition first_record :: "frame \<Rightarrow> error + (string \<times> cell) list" where
  "first_record f =
     (if nrows f = 0 then Inl IndexError else Inr (map (\<lambda>(c, s). (c, s ! 0)) (cols f)))"

text \<open>\<open>float(pred)\<close> of the array of predictions: defined for an array of one element.\<close>

definition float_of :: "real list \<Rightarrow> error + real" where
  "float_of preds = (case preds of [p] \<Rightarrow> Inr p | _ \<Rightarrow> Inl TypeError)"

definition predict ::
  "(string \<Rightarrow> timestamp option) \<Rightarrow> model option \<Rightarrow> heap \<Rightarrow> predict_request \<Rightarrow> exn + predict_response" where
  "predict dateparse model_file h req =
     (case make_features dateparse h (PyStr (req_timestamp req)) (req_lag_1 req) (req_lag_2 req)
             (req_is_festival req) of
        Inl e \<Rightarrow> Inl (Uncaught e)
      | Inr (h1, X) \<Rightarrow>
          (case predict_from_df model_file h1 X of
             Inl e \<Rightarrow> Inl (Uncaught e)
           | Inr (h2, pred) \<Rightarrow>
               (case float_of pred of
                  Inl e \<Rightarrow> Inl (Uncaught e)
                | Inr p \<Rightarrow>
                    (case first_record (h2 ! X) of
                       Inl e \<Rightarrow> Inl (Uncaught e)
                     | Inr d \<Rightarrow> Inr \<lparr>prediction = p, input = d\<rparr>))))"

text \<open>
  The observation store \<open>data/traffic.csv\<close> and the frames the scripts make of it have
  a fixed schema, so a row is a record here: the columns \<open>timestamp\<close>, \<open>page_views\<close>
  and \<open>is_festival\<close> that \<open>report\<close> writes. \<open>columns\<close> is the header as read, so that
  every read of a column the file does not have is the \<open>KeyError\<close> (or the explicit
  \<open>ValueError\<close>) of the source; the cells of a column that is not in the header are never
  read. Cells of other columns a file may carry are not modelled. The timestamp cell is the
  text of the file (\<open>'t = string\<close>) before \<open>pd.to_datetime\<close>, and a \<open>Timestamp\<close> or
  \<open>NaT\<close> (\<open>'t = timestamp option\<close>) after it.
\<close>

record 't obs =
  timestamp :: 't
  page_views :: cell
  is_festival :: cell

record 'r table =
  columns :: "string list"
  rows :: "'r list"

record report_request =
  rep_timestamp :: string
  actual_page_views :: int
  rep_is_festival :: "int option"

text \<open>
  \<open>report\<close> validates the timestamp, then appends the observation to the store, which it
  creates with its header on the first write. \<open>strftime\<close> is the parameter that formats the
  parsed instant. The write itself does not fail here; \<open>int(None)\<close> for a request whose
  \<open>is_festival\<close> is null is the one exception of the \<open>try\<close> block that is modelled,
  raised after the file was opened and its header written.
\<close>

definition report ::
  "(string \<Rightarrow> timestamp option) \<Rightarrow> (timestamp \<Rightarrow> string) \<Rightarrow> string obs table option \<Rightarrow> report_request
     \<Rightarrow> (exn + string) \<times> string obs table option" where
  "report dateparse strftime data_csv req =
     (case dateparse (rep_timestamp req) of
        None \<Rightarrow> (Inl (HTTPException 400 ''Invalid timestamp format''), data_csv)
      | Some ts \<Rightarrow>
          (let f = (case data_csv of
                      None \<Rightarrow> \<lparr>columns = [''timestamp'', ''page_views'', ''is_festival''], rows = []\<rparr>
                    | Some t \<Rightarrow> t)
           in case rep_is_festival req of
                None \<Rightarrow> (Inl (HTTPException 500 ''Failed to write CSV''), Some f)
              | Some i \<Rightarrow>
                  (Inr ''Appended observation'',
                   Some (f\<lparr>rows := rows f @
                     [\<lparr>timestamp = strftime ts, page_views = Num (of_int (actual_page_views req)),
                       is_festival = Num (of_int i)\<rparr>]\<rparr>))))"

section \<open>Loading the observation store: \<^verbatim>\<open>scripts/retrain.py\<close> and \<^verbatim>\<open>scripts/check_drift.py\<close>\<close>

datatype line = Warning_invalid_timestamps nat | Bad_rows_saved

datatype decision = NO_DRIFT | MILD_DRIFT | SEVERE_DRIFT

record drift_report =
  report_timestamp :: string
  mae :: real
  drift_scores :: "(string \<times> cell) list"
  decision :: decision

text \<open>The files the scripts read and write, and what they print.\<close>

record fs =
  data_csv :: "string obs table option"
  model_joblib :: "model option"
  bad_timestamp_rows :: "timestamp option obs table option"
  bad_timestamp_rows_for_drift :: "timestamp option obs table option"
  drift_metrics :: "drift_report option"
  stdout :: "line list"

definition isspace :: "char \<Rightarrow> bool" where
  "isspace c = (c \<in> set [CHR '' '', CHR 0x09, CHR 0x0A, CHR 0x0B, CHR 0x0C, CHR 0x0D,
                          CHR 0x1C, CHR 0x1D, CHR 0x1E, CHR 0x1F])"

definition strip :: "string \<Rightarrow> string" where
  "strip s = rev (dropWhile isspace (rev (dropWhile isspace s)))"

text \<open>
  \<open>df["timestamp"].astype(str).str.strip()\<close>, then \<open>pd.to_datetime(..., errors="coerce")\<close>:
  the parser is the parameter \<open>to_datetime\<close>, applied cell by cell, \<open>None\<close> (\<open>NaT\<close>) for a
  text it does not parse.
\<close>

definition coerce_timestamps :: "(string \<Rightarrow> timestamp option) \<Rightarrow> string obs list \<Rightarrow> timestamp option obs list" where
  "coerce_timestamps to_datetime rs =
     map (\<lambda>r. \<lparr>timestamp = to_datetime (strip (timestamp r)), page_views = page_views r,
               is_festival = is_festival r\<rparr>) rs"

definition isnat :: "timestamp option obs \<Rightarrow> bool" where
  "isnat r = (timestamp r = None)"

definition dropna_timestamp :: "timestamp option obs list \<Rightarrow> timestamp option obs list" where
  "dropna_timestamp rs = filter (\<lambda>r. \<not> isnat r) rs"

definition ts_key :: "timestamp option obs \<Rightarrow> int" where
  "ts_key r = (case timestamp r of None \<Rightarrow> 0 | Some t \<Rightarrow> instant t)"

text \<open>\<open>df.sort_values("timestamp").reset_index(drop=True)\<close>: ascending by instant, \<open>NaT\<close>
  last. Rows of one instant keep their order here; pandas' default sort does not promise
  that, and no property below depends on it.\<close>

definition sort_values_timestamp :: "timestamp option obs list \<Rightarrow> timestamp option obs list" where
  "sort_values_timestamp rs = sort_key ts_key (filter (\<lambda>r. \<not> isnat r) rs) @ filter isnat rs"

text \<open>\<open>df.tail(n)\<close>: the last \<open>n\<close> rows; none for \<open>n = 0\<close>; all but the first \<open>-n\<close> for a
  negative \<open>n\<close>.\<close>

definition tail :: "int \<Rightarrow> 'a list \<Rightarrow> 'a list" where
  "tail n xs =
     (if n = 0 then []
      else if n > 0 then drop (length xs - nat n) xs
      else drop (nat (- n)) xs)"

definition load_data ::
  "(string \<Rightarrow> timestamp option) \<Rightarrow> fs \<Rightarrow> (error + timestamp option obs table) \<times> fs" where
  "load_data to_datetime fs =
     (case data_csv fs of
        None \<Rightarrow> (Inl FileNotFoundError, fs)
      | Some df0 \<Rightarrow>
          if ''timestamp'' \<notin> set (columns df0) then (Inl (ValueError CSV_missing_timestamp_column), fs)
          else
            (let df = coerce_timestamps to_datetime (rows df0);
                 num_bad = length (filter isnat df);
                 fs1 = (if num_bad > 0
                        then fs\<lparr>stdout := stdout fs @ [Warning_invalid_timestamps num_bad, Bad_rows_saved],
                                 bad_timestamp_rows := Some \<lparr>columns = columns df0, rows = filter isnat df\<rparr>\<rparr>
                        else fs);
                 df = sort_values_timestamp (dropna_timestamp df)
             in (Inr \<lparr>columns = columns df0, rows = df\<rparr>, fs1)))"

definition load_recent_data ::
  "(string \<Rightarrow> timestamp option) \<Rightarrow> fs \<Rightarrow> int \<Rightarrow> (error + timestamp option obs table) \<times> fs" where
  "load_recent_data to_datetime fs window =
     (case data_csv fs of
        None \<Rightarrow> (Inl FileNotFoundError, fs)
      | Some df0 \<Rightarrow>
          if ''timestamp'' \<notin> set (columns df0) then (Inl (ValueError CSV_missing_timestamp_column), fs)
          else
            (let df = coerce_timestamps to_datetime (rows df0);
                 num_bad = length (filter isnat df);
                 fs1 = (if num_bad > 0
                        then fs\<lparr>stdout := stdout fs @ [Warning_invalid_timestamps num_bad, Bad_rows_saved],
                                 bad_timestamp_rows_for_drift :=
                                   Some \<lparr>columns = columns df0, rows = filter isnat df\<rparr>\<rparr>
                        else fs);
                 df = sort_values_timestamp (dropna_timestamp df)
             in if int (length df) < window + 2
                then (Inl (ValueError (Not_enough_valid_data (window + 2) (int (length df)))), fs1)
                else (Inr \<lparr>columns = columns df0, rows = tail window df\<rparr>, fs1)))"

section \<open>Feature derivation from the history\<close>

record feat = "timestamp option obs" +
  lag_1 :: cell
  lag_2 :: cell
  hour :: cell
  day_of_week :: cell
  month :: cell
  is_weekend :: cell

text \<open>\<open>Series.shift(k)\<close>: every cell moves \<open>k\<close> places down, nulls come in at the top.\<close>

definition shift :: "nat \<Rightarrow> cell list \<Rightarrow> cell list" where
  "shift k s = take (length s) (replicate k Null @ s)"

text \<open>\<open>.dt.hour\<close> and its kin: the attribute of a timestamp, null for \<open>NaT\<close>.\<close>

definition dt :: "(timestamp \<Rightarrow> int) \<Rightarrow> timestamp option \<Rightarrow> cell" where
  "dt attr t = (case t of None \<Rightarrow> Null | Some ts \<Rightarrow> Num (of_int (attr ts)))"

text \<open>\<open>(s >= 5).astype(int)\<close>: a comparison with a null cell is false.\<close>

definition ge5 :: "cell \<Rightarrow> cell" where
  "ge5 c = (case c of Null \<Rightarrow> Num 0 | Num x \<Rightarrow> (if x \<ge> 5 then Num 1 else Num 0))"

text \<open>The six column assignments of \<open>build_features\<close> and \<open>build_training_features\<close>.\<close>

definition add_features :: "timestamp option obs list \<Rightarrow> feat list" where
  "add_features rs =
     (let pv = map page_views rs;
          l1 = shift 1 pv;
          l2 = shift 2 pv
      in map (\<lambda>(r, a, b).
               \<lparr>timestamp = timestamp r, page_views = page_views r, is_festival = is_festival r,
                lag_1 = a, lag_2 = b,
                hour = dt dt_hour (timestamp r),
                day_of_week = dt dt_dayofweek (timestamp r),
                month = dt dt_month (timestamp r),
                is_weekend = ge5 (dt dt_dayofweek (timestamp r))\<rparr>)
           (zip rs (zip l1 l2)))"

definition add_labels :: "string list \<Rightarrow> string list" where
  "add_labels cs =
     fold (\<lambda>c cs. if c \<in> set cs then cs else cs @ [c])
       [''lag_1'', ''lag_2'', ''hour'', ''day_of_week'', ''month'', ''is_weekend''] cs"

text \<open>\<open>df.dropna()\<close>: a row stays when none of its cells is null.\<close>

definition row_complete :: "string list \<Rightarrow> feat \<Rightarrow> bool" where
  "row_complete cs r =
     (timestamp r \<noteq> None \<and> \<not> isna (page_views r)
      \<and> (''is_festival'' \<in> set cs \<longrightarrow> \<not> isna (is_festival r))
      \<and> \<not> isna (lag_1 r) \<and> \<not> isna (lag_2 r) \<and> \<not> isna (hour r) \<and> \<not> isna (day_of_week r)
      \<and> \<not> isna (month r) \<and> \<not> isna (is_weekend r))"

definition dropna :: "string list \<Rightarrow> feat list \<Rightarrow> feat list" where
  "dropna cs rs = filter (row_complete cs) rs"

definition build_features :: "timestamp option obs table \<Rightarrow> error + feat table" where
  "build_features df =
     (if ''page_views'' \<notin> set (columns df) then Inl (KeyError ''page_views'')
      else if ''timestamp'' \<notin> set (columns df) then Inl (KeyError ''timestamp'')
      else Inr \<lparr>columns = add_labels (columns df),
                rows = dropna (columns df) (add_features (rows df))\<rparr>)"

text \<open>\<open>df[["lag_1", ..., "is_festival"]]\<close> of a frame of feature rows, as a frame of \<open>app/\<close>.\<close>

definition feature_frame :: "feat list \<Rightarrow> frame" where
  "feature_frame rs =
     \<lparr>nrows = length rs,
      cols = [(''lag_1'', map lag_1 rs), (''lag_2'', map lag_2 rs), (''hour'', map hour rs),
              (''day_of_week'', map day_of_week rs), (''month'', map month rs),
              (''is_weekend'', map is_weekend rs), (''is_festival'', map is_festival rs)]\<rparr>"

definition build_training_features :: "timestamp option obs table \<Rightarrow> error + frame \<times> cell list" where
  "build_training_features df0 =
     (case build_features df0 of
        Inl e \<Rightarrow> Inl e
      | Inr df \<Rightarrow>
          if ''is_festival'' \<notin> set (columns df) then Inl (KeyError ''is_festival'')
          else Inr (feature_frame (rows df), map page_views (rows df)))"

section \<open>Drift check: \<^verbatim>\<open>scripts/check_drift.py\<close>\<close>

text \<open>\<open>sklearn.metrics.mean_absolute_error\<close>: a \<open>ValueError\<close> for no sample, for inputs of
  different lengths and for a null among the true values.\<close>

definition mean_absolute_error :: "cell list \<Rightarrow> real list \<Rightarrow> error + real" where
  "mean_absolute_error y_true y_pred =
     (if y_true = [] \<or> length y_true \<noteq> length y_pred \<or> list_ex isna y_true
      then Inl (ValueError Bad_samples)
      else Inr (sum_list (map2 (\<lambda>a b. \<bar>a - b\<bar>) (nums y_true) y_pred) / real (length y_true)))"

text \<open>\<open>abs(df[col].mean() - df[col].iloc[0])\<close>: \<open>IndexError\<close> on a column of no row; null
  (\<open>NaN\<close>) when the first cell is null or the column has no number.\<close>

definition drift_score :: "cell list \<Rightarrow> error + cell" where
  "drift_score s =
     (case s of
        [] \<Rightarrow> Inl IndexError
      | Null # _ \<Rightarrow> Inr Null
      | Num x # _ \<Rightarrow> Inr (Num \<bar>mean s - x\<bar>))"

fun drift_scores_of :: "(string \<times> cell list) list \<Rightarrow> error + (string \<times> cell) list" where
  "drift_scores_of [] = Inr []"
| "drift_scores_of ((col, s) # cs) =
     (case drift_score s of
        Inl e \<Rightarrow> Inl e
      | Inr d \<Rightarrow> (case drift_scores_of cs of Inl e \<Rightarrow> Inl e | Inr ds \<Rightarrow> Inr ((col, d) # ds)))"

definition drift_decision :: "real \<Rightarrow> decision" where
  "drift_decision e =
     (if e < 50 then NO_DRIFT
      else if e < 120 then MILD_DRIFT
      else SEVERE_DRIFT)"

text \<open>\<open>now\<close> is \<open>datetime.now().isoformat()\<close>.\<close>

definition detect_drift ::
  "(string \<Rightarrow> timestamp option) \<Rightarrow> string \<Rightarrow> fs \<Rightarrow> (error + drift_report) \<times> fs" where
  "detect_drift to_datetime now fs =
     (case load_recent_data to_datetime fs 20 of
        (Inl e, fs1) \<Rightarrow> (Inl e, fs1)
      | (Inr df0, fs1) \<Rightarrow>
          (case build_features df0 of
             Inl e \<Rightarrow> (Inl e, fs1)
           | Inr df \<Rightarrow>
               (case model_joblib fs1 of
                  None \<Rightarrow> (Inl FileNotFoundError, fs1)
                | Some m \<Rightarrow>
                    if ''is_festival'' \<notin> set (columns df) then (Inl (KeyError ''is_festival''), fs1)
                    else
                      (let X = feature_frame (rows df);
                           y_true = map page_views (rows df)
                       in case m X of
                            Inl e \<Rightarrow> (Inl e, fs1)
                          | Inr y_pred \<Rightarrow>
                              (case mean_absolute_error y_true y_pred of
                                 Inl e \<Rightarrow> (Inl e, fs1)
                               | Inr e \<Rightarrow>
                                   (case drift_scores_of (cols X) of
                                      Inl e \<Rightarrow> (Inl e, fs1)
                                    | Inr scores \<Rightarrow>
                                        (let rep = \<lparr>report_timestamp = now, mae = e,
                                                     drift_scores = scores,
                                                     decision = drift_decision e\<rparr>
                                         in (Inr rep, fs1\<lparr>drift_metrics := Some rep\<rparr>))))))))"

section \<open>A parser for the examples\<close>

text \<open>A parser to run the scripts on: it reads a text of two digits, \<open>00\<close> to \<open>29\<close>, as that
  hour after the midnight of a Sunday in December, and rejects every other text.\<close>

definition hour_of_day :: "string \<Rightarrow> timestamp option" where
  "hour_of_day s =
     (case s of
        [a, b] \<Rightarrow>
          (let x = (of_char a :: nat); y = (of_char b :: nat)
           in if 48 \<le> x \<and> x \<le> 50 \<and> 48 \<le> y \<and> y \<le> 57
              then Some \<lparr>instant = int (10 * (x - 48) + (y - 48)),
                          dt_hour = int (10 * (x - 48) + (y - 48)),
                          dt_dayofweek = 6, dt_month = 12\<rparr>
              else None)
      | _ \<Rightarrow> None)"

text \<open>A store of 23 rows, not in order of time, one of them with a text that is no
  timestamp, and a model that predicts 100 for every row.\<close>

definition example_store :: "string obs table" where
  "example_store =
     \<lparr>columns = [''timestamp'', ''page_views'', ''is_festival''],
      rows = map (\<lambda>(t, v). \<lparr>timestamp = t, page_views = Num v, is_festival = Num 0\<rparr>)
        [(''02'', 102), (''03'', 103), (''00'', 100), (''01'', 101), (''04'', 104), (''05'', 105),
         (''06'', 106), (''07'', 107), (''08'', 108), (''not a time'', 500), (''09'', 109),
         (''10'', 110), (''11'', 111), (''12'', 112), (''13'', 113), (''14'', 114), (''15'', 115),
         (''16'', 116), (''17'', 117), (''18'', 118), (''19'', 119), (''20'', 120), (''21'', 121)]\<rparr>"

definition example_fs :: fs where
  "example_fs =
     \<lparr>data_csv = Some example_store,
      model_joblib = Some (\<lambda>X. Inr (replicate (nrows X) 100)),
      bad_timestamp_rows = None, bad_timestamp_rows_for_drift = None,
      drift_metrics = None, stdout = []\<rparr>"

text \<open>A store of four rows, one of them malformed, and a history of three observations.\<close>

definition small_store :: "string obs table" where
  "small_store =
     \<lparr>columns = [''timestamp'', ''page_views'', ''is_festival''],
      rows = [\<lparr>timestamp = ''03'', page_views = Num 95, is_festival = Num 1\<rparr>,
              \<lparr>timestamp = ''bad'', page_views = Num 110, is_festival = Num 0\<rparr>,
              \<lparr>timestamp = '' 02'', page_views = Num 90, is_festival = Num 1\<rparr>,
              \<lparr>timestamp = ''00'', page_views = Num 100, is_festival = Num 0\<rparr>]\<rparr>"

definition small_fs :: fs where
  "small_fs =
     \<lparr>data_csv = Some small_store, model_joblib = None, bad_timestamp_rows = None,
      bad_timestamp_rows_for_drift = None, drift_metrics = None, stdout = []\<rparr>"

definition three_rows :: "timestamp option obs table" where
  "three_rows =
     \<lparr>columns = [''timestamp'', ''page_views'', ''is_festival''],
      rows = [\<lparr>timestamp = Some \<lparr>instant = 1, dt_hour = 1, dt_dayofweek = 5, dt_month = 12\<rparr>,
                page_views = Num 100, is_festival = Num 0\<rparr>,
              \<lparr>timestamp = Some \<lparr>instant = 2, dt_hour = 2, dt_dayofweek = 5, dt_month = 12\<rparr>,
                page_views = Num 110, is_festival = Num 0\<rparr>,
              \<lparr>timestamp = Some \<lparr>instant = 3, dt_hour = 3, dt_dayofweek = 5, dt_month = 12\<rparr>,
                page_views = Num 90, is_festival = Num 1\<rparr>]\<rparr>"

text \<open>A store of 22 rows with valid timestamps, the row of hour 10 without \<open>page_views\<close>.\<close>

definition gap_store :: "string obs table" where
  "gap_store =
     \<lparr>columns = [''timestamp'', ''page_views'', ''is_festival''],
      rows = map (\<lambda>(t, v). \<lparr>timestamp = t, page_views = v, is_festival = Num 0\<rparr>)
        [(''00'', Num 100), (''01'', Num 101), (''02'', Num 102), (''03'', Num 103),
         (''04'', Num 104), (''05'', Num 105), (''06'', Num 106), (''07'', Num 107),
         (''08'', Num 108), (''09'', Num 109), (''10'', Null), (''11'', Num 111),
         (''12'', Num 112), (''13'', Num 113), (''14'', Num 114), (''15'', Num 115),
         (''16'', Num 116), (''17'', Num 117), (''18'', Num 118), (''19'', Num 119),
         (''20'', Num 120), (''21'', Num 121)]\<rparr>"

definition gap_fs :: fs where
  "gap_fs =
     \<lparr>data_csv = Some gap_store,
      model_joblib = Some (\<lambda>X. Inr (replicate (nrows X) 100)),
      bad_timestamp_rows = None, bad_timestamp_rows_for_drift = None,
      drift_metrics = None, stdout = []\<rparr>"

section \<open>Properties\<close>

subsection \<open>Schema enforcement and imputation: what the heap holds\<close>

lemma labels_mem: "c \<in> set (labels f) \<longleftrightarrow> map_of (cols f) c \<noteq> None"
  by (simp add: labels_def map_of_eq_None_iff)

lemma map_of_setitem: "map_of (cols (setitem f c v)) = (map_of (cols f))(c \<mapsto> v)"
  by (simp add: setitem_def update_conv')

lemma nrows_setitem: "nrows (setitem f c v) = nrows f"
  by (simp add: setitem_def)

lemma fold_ensure_col:
  assumes "X < length h"
  shows "\<exists>g. fold (ensure_col X) cs h = h[X := g] \<and> nrows g = nrows (h ! X)
           \<and> (\<forall>c. map_of (cols g) c =
                 (if c \<in> set cs \<and> map_of (cols (h ! X)) c = None
                  then Some (replicate (nrows (h ! X)) (if c \<in> set [''lag_1'', ''lag_2''] then Null else Num 0))
                  else map_of (cols (h ! X)) c))"
  using assms
proof (induction cs arbitrary: h)
  case Nil
  then show ?case by (intro exI [of _ "h ! X"]) simp
next
  case (Cons a cs)
  let ?h1 = "ensure_col X a h"
  have len: "X < length ?h1" using Cons.prems by (simp add: ensure_col_def)
  have n1: "nrows (?h1 ! X) = nrows (h ! X)"
    using Cons.prems by (simp add: ensure_col_def nrows_setitem)
  have m1: "map_of (cols (?h1 ! X)) =
              (if map_of (cols (h ! X)) a = None
               then (map_of (cols (h ! X)))(a \<mapsto> replicate (nrows (h ! X)) (if a \<in> set [''lag_1'', ''lag_2''] then Null else Num 0))
               else map_of (cols (h ! X)))"
    using Cons.prems by (simp add: ensure_col_def labels_mem map_of_setitem)
  have upd: "\<And>g. ?h1[X := g] = h[X := g]"
    by (simp add: ensure_col_def)
  from Cons.IH [OF len] obtain g where
    g: "fold (ensure_col X) cs ?h1 = ?h1[X := g]" "nrows g = nrows (?h1 ! X)"
       "\<forall>c. map_of (cols g) c =
                 (if c \<in> set cs \<and> map_of (cols (?h1 ! X)) c = None
                  then Some (replicate (nrows (?h1 ! X)) (if c \<in> set [''lag_1'', ''lag_2''] then Null else Num 0))
                  else map_of (cols (?h1 ! X)) c)"
    by blast
  show ?case
  proof (intro exI [of _ g] conjI allI)
    show "fold (ensure_col X) (a # cs) h = h[X := g]" using g(1) upd by simp
    show "nrows g = nrows (h ! X)" using g(2) n1 by simp
    fix c
    show "map_of (cols g) c =
         (if c \<in> set (a # cs) \<and> map_of (cols (h ! X)) c = None
          then Some (replicate (nrows (h ! X)) (if c \<in> set [''lag_1'', ''lag_2''] then Null else Num 0))
          else map_of (cols (h ! X)) c)"
      using g(3) [rule_format, of c] n1 m1 by (auto split: if_splits)
  qed
qed

lemma select_cols_total:
  assumes "\<forall>c \<in> set cs. map_of al c \<noteq> None"
  shows "select_cols al cs = Inr (map (\<lambda>c. (c, the (map_of al c))) cs)"
  using assms by (induction cs) auto

lemma map_of_map_key:
  "map_of (map (\<lambda>c. (c, f c)) cs) c = (if c \<in> set cs then Some (f c) else None)"
  by (induction cs) auto

lemma ensure_columns_result:
  assumes "X0 < length h"
  shows "\<exists>g f. ensure_columns h X0 = Inr (h @ [g, f], Suc (length h))
           \<and> nrows f = nrows (h ! X0)
           \<and> cols f = map (\<lambda>c. (c, case map_of (cols (h ! X0)) c of
                                       Some v \<Rightarrow> v
                                     | None \<Rightarrow> replicate (nrows (h ! X0))
                                         (if c \<in> set [''lag_1'', ''lag_2''] then Null else Num 0)))
                         FEATURE_COLS"
proof -
  let ?h1 = "h @ [h ! X0]"
  let ?X = "length h"
  have lt: "?X < length ?h1" by simp
  from fold_ensure_col [OF lt, of FEATURE_COLS] obtain g where
    g: "fold (ensure_col ?X) FEATURE_COLS ?h1 = ?h1[?X := g]" "nrows g = nrows (?h1 ! ?X)"
       "\<forall>c. map_of (cols g) c =
                 (if c \<in> set FEATURE_COLS \<and> map_of (cols (?h1 ! ?X)) c = None
                  then Some (replicate (nrows (?h1 ! ?X)) (if c \<in> set [''lag_1'', ''lag_2''] then Null else Num 0))
                  else map_of (cols (?h1 ! ?X)) c)"
    by blast
  have h2: "?h1[?X := g] = h @ [g]" by simp
  have pres: "\<forall>c \<in> set FEATURE_COLS. map_of (cols g) c \<noteq> None"
    using g(3) by auto
  have sel: "select_cols (cols g) FEATURE_COLS =
               Inr (map (\<lambda>c. (c, the (map_of (cols g) c))) FEATURE_COLS)"
    by (rule select_cols_total [OF pres])
  have eq: "map (\<lambda>c. (c, the (map_of (cols g) c))) FEATURE_COLS =
            map (\<lambda>c. (c, case map_of (cols (h ! X0)) c of
                                       Some v \<Rightarrow> v
                                     | None \<Rightarrow> replicate (nrows (h ! X0))
                                         (if c \<in> set [''lag_1'', ''lag_2''] then Null else Num 0)))
                         FEATURE_COLS"
    by (rule map_cong [OF refl]) (use g(3) in \<open>auto split: option.splits\<close>)
  show ?thesis
    apply (rule exI [of _ g])
    apply (rule exI [of _ "g\<lparr>cols := map (\<lambda>c. (c, the (map_of (cols g) c))) FEATURE_COLS\<rparr>"])
    using g(1,2) sel eq
    by (simp add: ensure_columns_def alloc_def Let_def getitem_list_def h2)
qed

lemma wf_frame_length: "wf_frame f \<Longrightarrow> map_of (cols f) c = Some s \<Longrightarrow> length s = nrows f"
  by (auto simp: wf_frame_def list_all_iff dest!: map_of_SomeD)

lemma fillna_no_null: "\<not> list_ex isna s \<Longrightarrow> fillna s v = s"
  by (induction s) (auto simp: fillna_def)

lemma impute_col_result:
  assumes "Xp < length h" and "map_of (cols (h ! Xp)) col = Some s"
  shows "impute_col Xp col h =
           Inr (h[Xp := setitem (h ! Xp) col
                  (if list_all isna s then replicate (nrows (h ! Xp)) (Num 0) else fillna s (mean s))])"
  using assms by (simp add: impute_col_def getitem_def)

lemma impute_lags_result:
  assumes Xp: "Xp < length h"
    and f: "cols (h ! Xp) = [(''lag_1'', s1), (''lag_2'', s2), (''hour'', a), (''day_of_week'', b),
                             (''month'', c), (''is_weekend'', d), (''is_festival'', e)]"
    and l1: "length s1 = nrows (h ! Xp)" and l2: "length s2 = nrows (h ! Xp)"
  shows "impute_lags Xp h =
           Inr (h[Xp := (h ! Xp)\<lparr>cols :=
                  [(''lag_1'', if list_all isna s1 then replicate (length s1) (Num 0) else fillna s1 (mean s1)),
                   (''lag_2'', if list_all isna s2 then replicate (length s2) (Num 0) else fillna s2 (mean s2)),
                   (''hour'', a), (''day_of_week'', b),
                   (''month'', c), (''is_weekend'', d), (''is_festival'', e)]\<rparr>])"
proof -
  let ?v1 = "if list_all isna s1 then replicate (nrows (h ! Xp)) (Num 0) else fillna s1 (mean s1)"
  let ?v2 = "if list_all isna s2 then replicate (nrows (h ! Xp)) (Num 0) else fillna s2 (mean s2)"
  have sel: "getitem_list (h ! Xp) [''lag_1'', ''lag_2''] =
               Inr ((h ! Xp)\<lparr>cols := [(''lag_1'', s1), (''lag_2'', s2)]\<rparr>)"
    by (simp add: getitem_list_def f)
  show ?thesis
  proof (cases "list_ex isna s1 \<or> list_ex isna s2")
    case True
    let ?h1 = "h[Xp := setitem (h ! Xp) ''lag_1'' ?v1]"
    have m1: "map_of (cols (h ! Xp)) ''lag_1'' = Some s1" by (simp add: f)
    have c1: "impute_col Xp ''lag_1'' h = Inr ?h1"
      by (rule impute_col_result [OF Xp m1])
    have Xp1: "Xp < length ?h1" using Xp by simp
    have f1: "cols (?h1 ! Xp) = [(''lag_1'', ?v1), (''lag_2'', s2), (''hour'', a), (''day_of_week'', b),
                             (''month'', c), (''is_weekend'', d), (''is_festival'', e)]"
      using Xp by (simp add: setitem_def f)
    have n1: "nrows (?h1 ! Xp) = nrows (h ! Xp)" using Xp by (simp add: setitem_def)
    have m2: "map_of (cols (?h1 ! Xp)) ''lag_2'' = Some s2" by (simp only: f1) simp
    have c2: "impute_col Xp ''lag_2'' ?h1 =
                Inr (?h1[Xp := setitem (?h1 ! Xp) ''lag_2'' ?v2])"
      by (rule impute_col_result [OF Xp1 m2, unfolded n1])
    have fin: "?h1[Xp := setitem (?h1 ! Xp) ''lag_2'' ?v2] =
               h[Xp := (h ! Xp)\<lparr>cols :=
                  [(''lag_1'', ?v1), (''lag_2'', ?v2), (''hour'', a), (''day_of_week'', b),
                   (''month'', c), (''is_weekend'', d), (''is_festival'', e)]\<rparr>]"
      using Xp by (simp add: setitem_def f)
    have "impute_lags Xp h =
            (case impute_col Xp ''lag_1'' h of Inl e \<Rightarrow> Inl e | Inr h1 \<Rightarrow> impute_col Xp ''lag_2'' h1)"
      using True by (simp add: impute_lags_def sel)
    also have "\<dots> = impute_col Xp ''lag_2'' ?h1"
      by (simp only: c1 sum.case)
    also have "\<dots> = Inr (?h1[Xp := setitem (?h1 ! Xp) ''lag_2'' ?v2])"
      by (rule c2)
    finally show ?thesis by (simp only: fin l1 l2)
  next
    case False
    then have n1: "\<not> list_ex isna s1" and n2: "\<not> list_ex isna s2" by auto
    have e1: "(if list_all isna s1 then replicate (length s1) (Num 0) else fillna s1 (mean s1)) = s1"
      using n1 fillna_no_null [OF n1] by (cases s1) (auto simp: list_ex_iff list_all_iff)
    have e2: "(if list_all isna s2 then replicate (length s2) (Num 0) else fillna s2 (mean s2)) = s2"
      using n2 fillna_no_null [OF n2] by (cases s2) (auto simp: list_ex_iff list_all_iff)
    have same: "(h ! Xp)\<lparr>cols := [(''lag_1'', s1), (''lag_2'', s2), (''hour'', a), (''day_of_week'', b),
                             (''month'', c), (''is_weekend'', d), (''is_festival'', e)]\<rparr> = h ! Xp"
      by (simp only: f [symmetric]) simp
    have "impute_lags Xp h = Inr h"
      using False by (simp only: impute_lags_def sel) simp
    then show ?thesis by (simp only: e1 e2 same list_update_id)
  qed
qed

lemma predict_from_df_result:
  fixes h :: heap and X :: ref
  defines "E \<equiv> \<lambda>c. (case map_of (cols (h ! X)) c of
                        Some v \<Rightarrow> v
                      | None \<Rightarrow> replicate (nrows (h ! X))
                                 (if c \<in> set [''lag_1'', ''lag_2''] then Null else Num 0))"
  assumes X: "X < length h" and wf: "wf_frame (h ! X)"
  shows "\<exists>g f F. ensure_columns h X = Inr (h @ [g, f], Suc (length h))
           \<and> nrows f = nrows (h ! X)
           \<and> cols f = map (\<lambda>c. (c, E c)) FEATURE_COLS
           \<and> impute_lags (Suc (length h)) (h @ [g, f]) = Inr (h @ [g, F])
           \<and> (\<forall>m. predict_from_df (Some m) h X =
                  (case m F of Inl e \<Rightarrow> Inl e | Inr p \<Rightarrow> Inr (h @ [g, F], p)))
           \<and> nrows F = nrows (h ! X)
           \<and> length (E ''lag_1'') = nrows (h ! X) \<and> length (E ''lag_2'') = nrows (h ! X)
           \<and> cols F =
               [(''lag_1'', if list_all isna (E ''lag_1'') then replicate (length (E ''lag_1'')) (Num 0)
                            else fillna (E ''lag_1'') (mean (E ''lag_1''))),
                (''lag_2'', if list_all isna (E ''lag_2'') then replicate (length (E ''lag_2'')) (Num 0)
                            else fillna (E ''lag_2'') (mean (E ''lag_2''))),
                (''hour'', E ''hour''), (''day_of_week'', E ''day_of_week''), (''month'', E ''month''),
                (''is_weekend'', E ''is_weekend''), (''is_festival'', E ''is_festival'')]"
proof -
  from ensure_columns_result [OF X] obtain g f where
    ens: "ensure_columns h X = Inr (h @ [g, f], Suc (length h))"
    and nf: "nrows f = nrows (h ! X)"
    and cf: "cols f = map (\<lambda>c. (c, E c)) FEATURE_COLS"
    unfolding E_def by blast
  let ?h1 = "h @ [g, f]"
  let ?Xp = "Suc (length h)"
  have Xp: "?Xp < length ?h1" by simp
  have at: "?h1 ! ?Xp = f" by (simp add: nth_append)
  have cf': "cols (?h1 ! ?Xp) =
               [(''lag_1'', E ''lag_1''), (''lag_2'', E ''lag_2''), (''hour'', E ''hour''),
                (''day_of_week'', E ''day_of_week''), (''month'', E ''month''),
                (''is_weekend'', E ''is_weekend''), (''is_festival'', E ''is_festival'')]"
    by (simp only: at cf FEATURE_COLS_def list.map)
  have lenE: "length (E c) = nrows (h ! X)" for c
    using wf_frame_length [OF wf] by (auto simp: E_def split: option.splits)
  have l1: "length (E ''lag_1'') = nrows (?h1 ! ?Xp)" by (simp only: at nf lenE)
  have l2: "length (E ''lag_2'') = nrows (?h1 ! ?Xp)" by (simp only: at nf lenE)
  let ?F = "f\<lparr>cols :=
               [(''lag_1'', if list_all isna (E ''lag_1'') then replicate (length (E ''lag_1'')) (Num 0)
                            else fillna (E ''lag_1'') (mean (E ''lag_1''))),
                (''lag_2'', if list_all isna (E ''lag_2'') then replicate (length (E ''lag_2'')) (Num 0)
                            else fillna (E ''lag_2'') (mean (E ''lag_2''))),
                (''hour'', E ''hour''), (''day_of_week'', E ''day_of_week''), (''month'', E ''month''),
                (''is_weekend'', E ''is_weekend''), (''is_festival'', E ''is_festival'')]\<rparr>"
  have upd: "?h1[?Xp := ?F] = h @ [g, ?F]"
    by (simp add: list_update_append)
  have imp: "impute_lags ?Xp ?h1 = Inr (h @ [g, ?F])"
    using impute_lags_result [OF Xp cf' l1 l2] by (simp only: at upd)
  have atF: "(h @ [g, ?F]) ! ?Xp = ?F" by (simp add: nth_append)
  have pred: "predict_from_df (Some m) h X =
                  (case m ?F of Inl e \<Rightarrow> Inl e | Inr p \<Rightarrow> Inr (h @ [g, ?F], p))" for m
    by (simp only: predict_from_df_def load_model_def option.case sum.case ens imp prod.case atF)
  show ?thesis
    apply (rule exI [of _ g])
    apply (rule exI [of _ f])
    apply (rule exI [of _ ?F])
    using ens nf cf imp pred lenE by simp
qed

subsection \<open>Loading the store and deriving features: helper facts\<close>

lemma filter_isnat_coerce:
  "filter (\<lambda>r. \<not> isnat r) (coerce_timestamps td rs) =
     coerce_timestamps td (filter (\<lambda>r. td (strip (timestamp r)) \<noteq> None) rs)"
  by (induction rs) (auto simp: coerce_timestamps_def isnat_def)

lemma sort_values_dropna:
  "sort_values_timestamp (dropna_timestamp rs) = sort_key ts_key (filter (\<lambda>r. \<not> isnat r) rs)"
  by (simp add: sort_values_timestamp_def dropna_timestamp_def)

lemma length_valid:
  "length (sort_values_timestamp (dropna_timestamp (coerce_timestamps td rs))) =
     length (filter (\<lambda>r. td (strip (timestamp r)) \<noteq> None) rs)"
  unfolding sort_values_dropna filter_isnat_coerce by (simp add: coerce_timestamps_def)

lemma mset_valid:
  "mset (sort_values_timestamp (dropna_timestamp (coerce_timestamps td rs))) =
     mset (coerce_timestamps td (filter (\<lambda>r. td (strip (timestamp r)) \<noteq> None) rs))"
  unfolding sort_values_dropna filter_isnat_coerce by simp

lemma sorted_valid:
  "sorted (map ts_key (sort_values_timestamp (dropna_timestamp rs)))"
  by (simp add: sort_values_dropna)

lemma length_tail:
  "0 \<le> n \<Longrightarrow> n \<le> int (length xs) \<Longrightarrow> length (tail n xs) = nat n"
  by (auto simp: tail_def)

lemma load_recent_data_result:
  assumes "data_csv fs = Some df0" and "''timestamp'' \<in> set (columns df0)"
  shows "load_recent_data td fs window =
     (let df = coerce_timestamps td (rows df0);
          v = sort_values_timestamp (dropna_timestamp df);
          fs1 = (if filter isnat df \<noteq> []
                 then fs\<lparr>stdout := stdout fs @ [Warning_invalid_timestamps (length (filter isnat df)), Bad_rows_saved],
                          bad_timestamp_rows_for_drift := Some \<lparr>columns = columns df0, rows = filter isnat df\<rparr>\<rparr>
                 else fs)
      in if int (length v) < window + 2
         then (Inl (ValueError (Not_enough_valid_data (window + 2) (int (length v)))), fs1)
         else (Inr \<lparr>columns = columns df0, rows = tail window v\<rparr>, fs1))"
  using assms by (simp add: load_recent_data_def Let_def)

lemma detect_drift_load_error:
  assumes "fst (load_recent_data td fs 20) = Inl e"
  shows "fst (detect_drift td now fs) = Inl e"
  using assms by (cases "load_recent_data td fs 20") (auto simp: detect_drift_def)

lemma filter_isnat_coerce_bad:
  "filter isnat (coerce_timestamps td rs) =
     coerce_timestamps td (filter (\<lambda>r. td (strip (timestamp r)) = None) rs)"
  by (induction rs) (auto simp: coerce_timestamps_def isnat_def)

lemma length_coerce: "length (coerce_timestamps td rs) = length rs"
  by (simp add: coerce_timestamps_def)

lemma load_data_result:
  assumes "data_csv fs = Some df0" and "''timestamp'' \<in> set (columns df0)"
  shows "load_data td fs =
     (let df = coerce_timestamps td (rows df0);
          v = sort_values_timestamp (dropna_timestamp df);
          fs1 = (if filter isnat df \<noteq> []
                 then fs\<lparr>stdout := stdout fs @ [Warning_invalid_timestamps (length (filter isnat df)), Bad_rows_saved],
                          bad_timestamp_rows := Some \<lparr>columns = columns df0, rows = filter isnat df\<rparr>\<rparr>
                 else fs)
      in (Inr \<lparr>columns = columns df0, rows = v\<rparr>, fs1))"
  using assms by (simp add: load_data_def Let_def)

lemma nth_shift: "i < length s \<Longrightarrow> shift k s ! i = (if i < k then Null else s ! (i - k))"
  by (simp add: shift_def nth_append)

lemma nth_shift_map:
  assumes "i < length rs"
  shows "shift k (map f rs) ! i = (if i < k then Null else f (rs ! (i - k)))"
proof -
  have "i - k < length rs" using assms by arith
  then show ?thesis using assms by (simp add: nth_shift)
qed

lemma length_shift: "length (shift k s) = length s"
  by (simp add: shift_def)

lemma length_add_features: "length (add_features rs) = length rs"
  by (simp add: add_features_def Let_def length_shift)

lemma nth_add_features:
  assumes "i < length rs"
  shows "add_features rs ! i =
           \<lparr>timestamp = timestamp (rs ! i), page_views = page_views (rs ! i),
            is_festival = is_festival (rs ! i),
            lag_1 = (if i < 1 then Null else page_views (rs ! (i - 1))),
            lag_2 = (if i < 2 then Null else page_views (rs ! (i - 2))),
            hour = dt dt_hour (timestamp (rs ! i)),
            day_of_week = dt dt_dayofweek (timestamp (rs ! i)),
            month = dt dt_month (timestamp (rs ! i)),
            is_weekend = ge5 (dt dt_dayofweek (timestamp (rs ! i)))\<rparr>"
  using assms by (simp add: add_features_def Let_def length_shift nth_shift_map)

lemma filter_drop2:
  assumes "\<And>i. i < 2 \<Longrightarrow> i < length xs \<Longrightarrow> \<not> P (xs ! i)"
  shows "filter P xs = filter P (drop 2 xs)"
proof (cases xs)
  case Nil
  then show ?thesis by simp
next
  case (Cons a ys)
  note c1 = this
  show ?thesis
  proof (cases ys)
    case Nil
    with c1 assms [of 0] show ?thesis by simp
  next
    case (Cons b zs)
    with c1 assms [of 0] assms [of 1] show ?thesis by simp
  qed
qed

lemma dropna_first_two:
  "dropna cs (add_features rs) = filter (row_complete cs) (drop 2 (add_features rs))"
  unfolding dropna_def
  by (rule filter_drop2) (auto simp: length_add_features nth_add_features row_complete_def)

lemma complete_add_features:
  assumes "i < length rs" and "2 \<le> i"
  shows "row_complete cs (add_features rs ! i) \<longleftrightarrow>
           timestamp (rs ! i) \<noteq> None \<and> \<not> isna (page_views (rs ! i))
           \<and> (''is_festival'' \<in> set cs \<longrightarrow> \<not> isna (is_festival (rs ! i)))
           \<and> \<not> isna (page_views (rs ! (i - 1))) \<and> \<not> isna (page_views (rs ! (i - 2)))"
  using assms
  by (auto simp: nth_add_features row_complete_def dt_def ge5_def split: option.splits)

lemma dropna_complete_history:
  assumes "\<forall>r \<in> set rs. timestamp r \<noteq> None \<and> \<not> isna (page_views r) \<and> \<not> isna (is_festival r)"
  shows "dropna cs (add_features rs) = drop 2 (add_features rs)"
proof -
  have "row_complete cs x" if "x \<in> set (drop 2 (add_features rs))" for x
  proof -
    from that obtain j where j: "j < length (drop 2 (add_features rs))"
      and x: "x = drop 2 (add_features rs) ! j"
      by (auto simp: in_set_conv_nth)
    then have i: "j + 2 < length rs" and xi: "x = add_features rs ! (j + 2)"
      by (simp_all add: length_add_features add.commute)
    have m: "rs ! (j + 2) \<in> set rs" "rs ! (j + 1) \<in> set rs" "rs ! j \<in> set rs"
      using i by simp_all
    show ?thesis
      unfolding xi using complete_add_features [OF i, of cs] m assms by auto
  qed
  then show ?thesis
    unfolding dropna_first_two by (simp add: filter_True)
qed

lemma set_add_labels:
  "set (add_labels cs) = set cs \<union> {''lag_1'', ''lag_2'', ''hour'', ''day_of_week'', ''month'', ''is_weekend''}"
  by (auto simp: add_labels_def)

lemma build_features_result:
  assumes "''page_views'' \<in> set (columns df)" and "''timestamp'' \<in> set (columns df)"
  shows "build_features df =
           Inr \<lparr>columns = add_labels (columns df),
                rows = filter (row_complete (columns df)) (drop 2 (add_features (rows df)))\<rparr>"
  using assms by (simp add: build_features_def dropna_first_two)

subsection \<open>The drift check: helper facts\<close>

lemma detect_drift_InrD:
  assumes "detect_drift td now fs = (Inr rep, fs')"
  shows "\<exists>recent fs1 out m y_pred.
           load_recent_data td fs 20 = (Inr recent, fs1)
         \<and> build_features recent = Inr out
         \<and> model_joblib fs1 = Some m
         \<and> ''is_festival'' \<in> set (columns out)
         \<and> m (feature_frame (rows out)) = Inr y_pred
         \<and> mean_absolute_error (map page_views (rows out)) y_pred = Inr (mae rep)
         \<and> drift_scores_of (cols (feature_frame (rows out))) = Inr (drift_scores rep)
         \<and> decision rep = drift_decision (mae rep)
         \<and> report_timestamp rep = now
         \<and> fs' = fs1\<lparr>drift_metrics := Some rep\<rparr>"
proof -
  obtain r1 fs1 where l: "load_recent_data td fs 20 = (r1, fs1)"
    by (cases "load_recent_data td fs 20")
  show ?thesis
  proof (cases r1)
    case (Inl e)
    with assms l show ?thesis by (simp add: detect_drift_def)
  next
    case (Inr recent)
    note r = this
    show ?thesis
    proof (cases "build_features recent")
      case (Inl e)
      with assms l r show ?thesis by (simp add: detect_drift_def)
    next
      case (Inr out)
      note b = this
      show ?thesis
      proof (cases "model_joblib fs1")
        case None
        with assms l r b show ?thesis by (simp add: detect_drift_def)
      next
        case (Some m)
        note m = this
        have fest: "''is_festival'' \<in> set (columns out)"
          using assms l r b m by (auto simp: detect_drift_def split: if_splits)
        from assms l r b m fest obtain y_pred e scores where
          "m (feature_frame (rows out)) = Inr y_pred"
          "mean_absolute_error (map page_views (rows out)) y_pred = Inr e"
          "drift_scores_of (cols (feature_frame (rows out))) = Inr scores"
          "rep = \<lparr>report_timestamp = now, mae = e, drift_scores = scores, decision = drift_decision e\<rparr>"
          "fs' = fs1\<lparr>drift_metrics := Some rep\<rparr>"
          by (auto simp: detect_drift_def Let_def split: sum.splits)
        with l r b m fest show ?thesis by simp
      qed
    qed
  qed
qed

lemma no_null_nums: "\<not> list_ex isna s \<Longrightarrow> s = map Num (nums s)"
proof (induction s)
  case Nil
  then show ?case by simp
next
  case (Cons a s)
  then show ?case by (cases a) auto
qed

lemma mean_absolute_error_InrD:
  assumes "mean_absolute_error y_true y_pred = Inr e"
  shows "y_true \<noteq> [] \<and> length y_pred = length y_true \<and> y_true = map Num (nums y_true)
         \<and> e = sum_list (map2 (\<lambda>a b. \<bar>a - b\<bar>) (nums y_true) y_pred) / real (length y_true)"
proof -
  have nn: "\<not> list_ex isna y_true" and ne: "y_true \<noteq> []" and len: "length y_true = length y_pred"
    and e: "e = sum_list (map2 (\<lambda>a b. \<bar>a - b\<bar>) (nums y_true) y_pred) / real (length y_true)"
    using assms by (auto simp: mean_absolute_error_def split: if_splits)
  from no_null_nums [OF nn] ne len e show ?thesis by simp
qed

lemma valid_rows_have_timestamp:
  "r \<in> set (sort_values_timestamp (dropna_timestamp rs)) \<Longrightarrow> timestamp r \<noteq> None"
  by (auto simp: sort_values_dropna isnat_def)

lemma set_tail_subset: "set (tail n xs) \<subseteq> set xs"
  by (auto simp: tail_def dest: in_set_dropD)

lemma load_recent_data_model:
  assumes "load_recent_data td fs w = (r, fs1)"
  shows "model_joblib fs1 = model_joblib fs"
  using assms
  by (auto simp: load_recent_data_def Let_def split: option.splits if_splits)

lemma cols_feature_frame_lengths:
  "list_all (\<lambda>(c, s). length s = length rs) (cols (feature_frame rs))"
  by (simp add: feature_frame_def)

lemma build_features_InrD:
  assumes "build_features df = Inr out"
  shows "columns out = add_labels (columns df) \<and> rows out = dropna (columns df) (add_features (rows df))"
  using assms by (auto simp: build_features_def split: if_splits)

lemma length_nums_no_null: "\<not> list_ex isna s \<Longrightarrow> length (nums s) = length s"
  using no_null_nums [of s] by (metis length_map)

lemma drift_score_no_null:
  assumes "s \<noteq> []" and "\<not> list_ex isna s"
  shows "drift_score s = Inr (Num \<bar>sum_list (nums s) / real (length s) - hd (nums s)\<bar>)"
proof -
  obtain c cs where s: "s = c # cs" using assms(1) by (cases s) auto
  with assms(2) obtain x where c: "c = Num x" by (cases c) auto
  show ?thesis
    using length_nums_no_null [OF assms(2)]
    by (simp add: drift_score_def mean_def s c)
qed

lemma no_null_column:
  assumes "\<forall>r \<in> set rs. \<not> isna (f r)"
  shows "\<not> list_ex isna (map f rs)"
  using assms by (simp add: list_ex_iff)

subsection \<open>The feature-vector builder\<close>

text \<open>
  C5. For a timestamp that \<open>_parse_timestamp\<close> accepts, \<open>make_features\<close> returns a new frame
  of one row with exactly the columns \<open>lag_1, lag_2, hour, day_of_week, month, is_weekend,
  is_festival\<close>, in this order: an absent lag stays null, an absent \<open>is_festival\<close> is 0, and
  the calendar fields are those of the timestamp. For a Sunday (\<open>dayofweek = 6\<close>) at hour 15
  in December with \<open>lag_1 = 120.0\<close>, \<open>lag_2 = 100.0\<close> and \<open>is_festival = 1\<close> the row is
  \<open>{lag_1: 120.0, lag_2: 100.0, hour: 15, day_of_week: 6, month: 12, is_weekend: 1,
  is_festival: 1}\<close>.
\<close>

theorem make_features_single_row:
  assumes "parse_timestamp dateparse ts = Inr t"
  shows "make_features dateparse h ts l1 l2 fest =
           Inr (h @ [\<lparr>nrows = 1, cols =
             [(''lag_1'', [case l1 of Some x \<Rightarrow> Num x | None \<Rightarrow> Null]),
              (''lag_2'', [case l2 of Some x \<Rightarrow> Num x | None \<Rightarrow> Null]),
              (''hour'', [Num (of_int (dt_hour t))]),
              (''day_of_week'', [Num (of_int (dt_dayofweek t))]),
              (''month'', [Num (of_int (dt_month t))]),
              (''is_weekend'', [Num (if dt_dayofweek t \<ge> 5 then 1 else 0)]),
              (''is_festival'', [Num (of_int (case fest of Some i \<Rightarrow> i | None \<Rightarrow> 0))])]\<rparr>], length h)
       \<and> (\<exists>h' X. make_features dateparse h ts l1 l2 fest = Inr (h', X)
            \<and> nrows (h' ! X) = 1 \<and> labels (h' ! X) = FEATURE_COLS
            \<and> getitem (h' ! X) ''lag_1'' = Inr [case l1 of Some x \<Rightarrow> Num x | None \<Rightarrow> Null]
            \<and> getitem (h' ! X) ''lag_2'' = Inr [case l2 of Some x \<Rightarrow> Num x | None \<Rightarrow> Null]
            \<and> getitem (h' ! X) ''is_festival'' = Inr [case fest of Some i \<Rightarrow> Num (of_int i) | None \<Rightarrow> Num 0])
       \<and> (dt_hour t = 15 \<and> dt_dayofweek t = 6 \<and> dt_month t = 12 \<longrightarrow>
            (\<exists>h' X. make_features dateparse h ts (Some 120) (Some 100) (Some 1) = Inr (h', X)
              \<and> nrows (h' ! X) = 1
              \<and> first_record (h' ! X) =
                   Inr [(''lag_1'', Num 120), (''lag_2'', Num 100), (''hour'', Num 15),
                        (''day_of_week'', Num 6), (''month'', Num 12), (''is_weekend'', Num 1),
                        (''is_festival'', Num 1)]))"
  using assms
  by (auto simp: make_features_def alloc_def Let_def labels_def FEATURE_COLS_def getitem_def
        first_record_def split: option.splits)

theorem make_features_single_row_witness:
  "parse_timestamp (\<lambda>s. if s = ''2025-12-07T15:00:00''
                         then Some \<lparr>instant = 0, dt_hour = 15, dt_dayofweek = 6, dt_month = 12\<rparr>
                         else None)
     (PyStr ''2025-12-07T15:00:00'') =
     Inr \<lparr>instant = 0, dt_hour = 15, dt_dayofweek = 6, dt_month = 12\<rparr>
   \<and> (\<exists>h' X. make_features (\<lambda>s. if s = ''2025-12-07T15:00:00''
                         then Some \<lparr>instant = 0, dt_hour = 15, dt_dayofweek = 6, dt_month = 12\<rparr>
                         else None) [] (PyStr ''2025-12-07T15:00:00'') (Some 120) (Some 100) (Some 1) =
                Inr (h', X)
         \<and> nrows (h' ! X) = 1
         \<and> first_record (h' ! X) =
              Inr [(''lag_1'', Num 120), (''lag_2'', Num 100), (''hour'', Num 15),
                   (''day_of_week'', Num 6), (''month'', Num 12), (''is_weekend'', Num 1),
                   (''is_festival'', Num 1)])
   \<and> make_features (\<lambda>s. if s = ''2025-12-07T15:00:00''
                         then Some \<lparr>instant = 0, dt_hour = 15, dt_dayofweek = 6, dt_month = 12\<rparr>
                         else None) [] (PyStr ''2025-12-07T15:00:00'') None None None =
       Inr ([\<lparr>nrows = 1, cols =
               [(''lag_1'', [Null]), (''lag_2'', [Null]), (''hour'', [Num 15]),
                (''day_of_week'', [Num 6]), (''month'', [Num 12]), (''is_weekend'', [Num 1]),
                (''is_festival'', [Num 0])]\<rparr>], 0)"
proof -
  let ?dp = "\<lambda>s. if s = ''2025-12-07T15:00:00''
                  then Some \<lparr>instant = 0, dt_hour = 15, dt_dayofweek = 6, dt_month = 12\<rparr>
                  else None"
  have p: "parse_timestamp ?dp (PyStr ''2025-12-07T15:00:00'') =
             Inr \<lparr>instant = 0, dt_hour = 15, dt_dayofweek = 6, dt_month = 12\<rparr>"
    by (simp add: parse_timestamp_def)
  show ?thesis
    using p make_features_single_row [OF p, of "[]" "Some 120" "Some 100" "Some 1"]
      make_features_single_row [OF p, of "[]" None None None]
    by simp
qed

subsection \<open>Schema enforcement\<close>

text \<open>
  C1. For every frame, whatever the order of its columns and whatever other columns it has,
  \<open>_ensure_columns\<close> returns a new frame whose columns are exactly \<open>lag_1, lag_2, hour,
  day_of_week, month, is_weekend, is_festival\<close>, in this order, over the same rows. A column
  the input has is kept as it is; an absent \<open>lag_1\<close> or \<open>lag_2\<close> is filled with nulls, and
  an absent calendar column (\<open>hour, day_of_week, month, is_weekend, is_festival\<close>) with 0.
\<close>

theorem ensure_columns_schema:
  assumes "X < length h"
  shows "\<exists>h' Xp. ensure_columns h X = Inr (h', Xp)
           \<and> labels (h' ! Xp) =
               [''lag_1'', ''lag_2'', ''hour'', ''day_of_week'', ''month'', ''is_weekend'', ''is_festival'']
           \<and> nrows (h' ! Xp) = nrows (h ! X)
           \<and> (\<forall>c \<in> set [''lag_1'', ''lag_2''].
                 getitem (h' ! Xp) c =
                   Inr (case getitem (h ! X) c of
                          Inr v \<Rightarrow> v
                        | Inl e \<Rightarrow> replicate (nrows (h ! X)) Null))
           \<and> (\<forall>c \<in> set [''hour'', ''day_of_week'', ''month'', ''is_weekend'', ''is_festival''].
                 getitem (h' ! Xp) c =
                   Inr (case getitem (h ! X) c of
                          Inr v \<Rightarrow> v
                        | Inl e \<Rightarrow> replicate (nrows (h ! X)) (Num 0)))"
proof -
  from ensure_columns_result [OF assms] obtain g f where
    ens: "ensure_columns h X = Inr (h @ [g, f], Suc (length h))"
    and nf: "nrows f = nrows (h ! X)"
    and cf: "cols f = map (\<lambda>c. (c, case map_of (cols (h ! X)) c of
                                       Some v \<Rightarrow> v
                                     | None \<Rightarrow> replicate (nrows (h ! X))
                                         (if c \<in> set [''lag_1'', ''lag_2''] then Null else Num 0)))
                         FEATURE_COLS"
    by blast
  have at: "(h @ [g, f]) ! Suc (length h) = f" by (simp add: nth_append)
  have lab: "labels f = FEATURE_COLS"
    by (simp add: labels_def cf comp_def)
  have get: "getitem f c =
               (if c \<in> set FEATURE_COLS
                then Inr (case map_of (cols (h ! X)) c of
                            Some v \<Rightarrow> v
                          | None \<Rightarrow> replicate (nrows (h ! X))
                                      (if c \<in> set [''lag_1'', ''lag_2''] then Null else Num 0))
                else Inl (KeyError c))" for c
    unfolding getitem_def cf map_of_map_key by simp
  show ?thesis
    apply (rule exI [of _ "h @ [g, f]"])
    apply (rule exI [of _ "Suc (length h)"])
    apply (simp only: at ens lab nf)
    apply (simp add: get FEATURE_COLS_def)
    apply (simp add: getitem_def split: option.splits)
    done
qed

theorem ensure_columns_schema_witness:
  "(0::nat) < length [\<lparr>nrows = 2, cols = [(''is_festival'', [Num 1, Num 0]), (''extra'', [Num 7, Num 8]),
                                           (''lag_2'', [Num 3, Null])]\<rparr>]
   \<and> (\<exists>h' Xp. ensure_columns [\<lparr>nrows = 2, cols = [(''is_festival'', [Num 1, Num 0]),
                   (''extra'', [Num 7, Num 8]), (''lag_2'', [Num 3, Null])]\<rparr>] 0 = Inr (h', Xp)
         \<and> labels (h' ! Xp) =
               [''lag_1'', ''lag_2'', ''hour'', ''day_of_week'', ''month'', ''is_weekend'', ''is_festival'']
         \<and> getitem (h' ! Xp) ''lag_1'' = Inr [Null, Null]
         \<and> getitem (h' ! Xp) ''lag_2'' = Inr [Num 3, Null]
         \<and> getitem (h' ! Xp) ''hour'' = Inr [Num 0, Num 0]
         \<and> getitem (h' ! Xp) ''is_festival'' = Inr [Num 1, Num 0])"
  using ensure_columns_schema [of 0 "[\<lparr>nrows = 2, cols = [(''is_festival'', [Num 1, Num 0]),
                   (''extra'', [Num 7, Num 8]), (''lag_2'', [Num 3, Null])]\<rparr>]"]
  by (auto simp: getitem_def numeral_2_eq_2)

subsection \<open>Imputation of the lags\<close>

text \<open>
  C2. The imputation pass of \<open>predict_from_df\<close>, on the frame that \<open>_ensure_columns\<close>
  returned and that the model is then given: each of \<open>lag_1\<close> and \<open>lag_2\<close>, on its own,
  becomes all 0.0 when every cell of it is null, and otherwise has each null cell replaced by
  the mean of its cells that are not null. A batch of one row with neither lag column ends
  with \<open>lag_1 = 0.0\<close> and \<open>lag_2 = 0.0\<close>; a batch of two rows with \<open>lag_1 = [null, 80.0]\<close>
  ends with \<open>lag_1 = [80.0, 80.0]\<close>.
\<close>

theorem predict_from_df_imputes_lags:
  assumes "X < length h" and "wf_frame (h ! X)"
  shows "\<exists>h1 Xp h2. ensure_columns h X = Inr (h1, Xp) \<and> impute_lags Xp h1 = Inr h2
           \<and> (\<forall>m. predict_from_df (Some m) h X =
                  (case m (h2 ! Xp) of Inl e \<Rightarrow> Inl e | Inr p \<Rightarrow> Inr (h2, p)))
           \<and> (\<forall>col \<in> set [''lag_1'', ''lag_2''].
                \<exists>s. s = (case getitem (h ! X) col of
                            Inr v \<Rightarrow> v
                          | Inl e \<Rightarrow> replicate (nrows (h ! X)) Null)
                   \<and> getitem (h1 ! Xp) col = Inr s \<and> length s = nrows (h ! X)
                   \<and> getitem (h2 ! Xp) col =
                       Inr (if list_all isna s then map (\<lambda>c. Num 0) s
                            else map (\<lambda>c. if isna c then Num (sum_list (nums s) / real (length (nums s))) else c) s))
           \<and> (nrows (h ! X) = 1 \<and> ''lag_1'' \<notin> set (labels (h ! X)) \<and> ''lag_2'' \<notin> set (labels (h ! X))
                \<longrightarrow> getitem (h2 ! Xp) ''lag_1'' = Inr [Num 0] \<and> getitem (h2 ! Xp) ''lag_2'' = Inr [Num 0])
           \<and> (getitem (h ! X) ''lag_1'' = Inr [Null, Num 80]
                \<longrightarrow> getitem (h2 ! Xp) ''lag_1'' = Inr [Num 80, Num 80])"
proof -
  define E where "E = (\<lambda>c. (case map_of (cols (h ! X)) c of
                        Some v \<Rightarrow> v
                      | None \<Rightarrow> replicate (nrows (h ! X))
                                 (if c \<in> set [''lag_1'', ''lag_2''] then Null else Num 0)))"
  have Ec: "(case map_of (cols (h ! X)) c of
                        Some v \<Rightarrow> v
                      | None \<Rightarrow> replicate (nrows (h ! X))
                                 (if c \<in> set [''lag_1'', ''lag_2''] then Null else Num 0)) = E c" for c
    by (simp add: E_def)
  from predict_from_df_result [OF assms, unfolded Ec] obtain g f F where
    ens: "ensure_columns h X = Inr (h @ [g, f], Suc (length h))"
    and cf: "cols f = map (\<lambda>c. (c, E c)) FEATURE_COLS"
    and imp: "impute_lags (Suc (length h)) (h @ [g, f]) = Inr (h @ [g, F])"
    and pred: "\<forall>m. predict_from_df (Some m) h X =
                  (case m F of Inl e \<Rightarrow> Inl e | Inr p \<Rightarrow> Inr (h @ [g, F], p))"
    and l1: "length (E ''lag_1'') = nrows (h ! X)" and l2: "length (E ''lag_2'') = nrows (h ! X)"
    and cF: "cols F =
               [(''lag_1'', if list_all isna (E ''lag_1'') then replicate (length (E ''lag_1'')) (Num 0)
                            else fillna (E ''lag_1'') (mean (E ''lag_1''))),
                (''lag_2'', if list_all isna (E ''lag_2'') then replicate (length (E ''lag_2'')) (Num 0)
                            else fillna (E ''lag_2'') (mean (E ''lag_2''))),
                (''hour'', E ''hour''), (''day_of_week'', E ''day_of_week''), (''month'', E ''month''),
                (''is_weekend'', E ''is_weekend''), (''is_festival'', E ''is_festival'')]"
    by blast
  have at1: "(h @ [g, f]) ! Suc (length h) = f" by (simp add: nth_append)
  have at2: "(h @ [g, F]) ! Suc (length h) = F" by (simp add: nth_append)
  have g1: "getitem f ''lag_1'' = Inr (E ''lag_1'')" "getitem f ''lag_2'' = Inr (E ''lag_2'')"
    by (simp_all add: getitem_def cf FEATURE_COLS_def)
  have imp_eq: "(if list_all isna s then replicate (length s) (Num 0) else fillna s (mean s)) =
        (if list_all isna s then map (\<lambda>c. Num 0) s
         else map (\<lambda>c. if isna c then Num (sum_list (nums s) / real (length (nums s))) else c) s)" for s
    by (simp add: fillna_def mean_def map_replicate_const)
  have g2: "getitem F ''lag_1'' = Inr (if list_all isna (E ''lag_1'') then map (\<lambda>c. Num 0) (E ''lag_1'')
         else map (\<lambda>c. if isna c then Num (sum_list (nums (E ''lag_1'')) / real (length (nums (E ''lag_1'')))) else c) (E ''lag_1''))"
      "getitem F ''lag_2'' = Inr (if list_all isna (E ''lag_2'') then map (\<lambda>c. Num 0) (E ''lag_2'')
         else map (\<lambda>c. if isna c then Num (sum_list (nums (E ''lag_2'')) / real (length (nums (E ''lag_2'')))) else c) (E ''lag_2''))"
    unfolding imp_eq [symmetric] by (simp_all add: getitem_def cF)
  have Eg: "E ''lag_1'' = (case getitem (h ! X) ''lag_1'' of
                            Inr v \<Rightarrow> v
                          | Inl e \<Rightarrow> replicate (nrows (h ! X)) Null)"
     "E ''lag_2'' = (case getitem (h ! X) ''lag_2'' of
                            Inr v \<Rightarrow> v
                          | Inl e \<Rightarrow> replicate (nrows (h ! X)) Null)"
    by (simp_all add: E_def getitem_def split: option.splits)
  have ex1: "getitem F ''lag_1'' = Inr [Num 0] \<and> getitem F ''lag_2'' = Inr [Num 0]"
    if "nrows (h ! X) = 1" "''lag_1'' \<notin> set (labels (h ! X))" "''lag_2'' \<notin> set (labels (h ! X))"
  proof -
    have "E ''lag_1'' = [Null]" "E ''lag_2'' = [Null]"
      using that by (simp_all add: E_def labels_mem)
    then show ?thesis unfolding g2 by simp
  qed
  have ex2: "getitem F ''lag_1'' = Inr [Num 80, Num 80]"
    if "getitem (h ! X) ''lag_1'' = Inr [Null, Num 80]"
  proof -
    have "E ''lag_1'' = [Null, Num 80]"
      using that by (simp add: E_def getitem_def split: option.splits)
    then show ?thesis unfolding g2 by simp
  qed
  show ?thesis
    apply (rule exI [of _ "h @ [g, f]"])
    apply (rule exI [of _ "Suc (length h)"])
    apply (rule exI [of _ "h @ [g, F]"])
    apply (simp only: at1 at2 ens imp)
    using pred g1 g2 l1 l2 ex1 ex2 Eg [symmetric]
    apply simp
    done
qed

theorem predict_from_df_imputes_lags_witness:
  "wf_frame ([\<lparr>nrows = 1, cols = [(''hour'', [Num 15])]\<rparr>] ! 0)
   \<and> (\<exists>h1 Xp h2. ensure_columns [\<lparr>nrows = 1, cols = [(''hour'', [Num 15])]\<rparr>] 0 = Inr (h1, Xp)
         \<and> impute_lags Xp h1 = Inr h2
         \<and> getitem (h1 ! Xp) ''lag_1'' = Inr [Null] \<and> getitem (h1 ! Xp) ''lag_2'' = Inr [Null]
         \<and> getitem (h2 ! Xp) ''lag_1'' = Inr [Num 0] \<and> getitem (h2 ! Xp) ''lag_2'' = Inr [Num 0])
   \<and> wf_frame ([\<lparr>nrows = 2, cols = [(''lag_1'', [Null, Num 80]), (''lag_2'', [Num 3, Num 5])]\<rparr>] ! 0)
   \<and> (\<exists>h1 Xp h2. ensure_columns [\<lparr>nrows = 2, cols = [(''lag_1'', [Null, Num 80]),
                      (''lag_2'', [Num 3, Num 5])]\<rparr>] 0 = Inr (h1, Xp)
         \<and> impute_lags Xp h1 = Inr h2
         \<and> getitem (h2 ! Xp) ''lag_1'' = Inr [Num 80, Num 80]
         \<and> getitem (h2 ! Xp) ''lag_2'' = Inr [Num 3, Num 5])"
proof -
  let ?A = "[\<lparr>nrows = 1, cols = [(''hour'', [Num 15])]\<rparr>]"
  let ?B = "[\<lparr>nrows = 2, cols = [(''lag_1'', [Null, Num 80]), (''lag_2'', [Num 3, Num 5])]\<rparr>]"
  have wA: "wf_frame (?A ! 0)" by (simp add: wf_frame_def labels_def)
  have wB: "wf_frame (?B ! 0)" by (simp add: wf_frame_def labels_def)
  have a: "\<exists>h1 Xp h2. ensure_columns ?A 0 = Inr (h1, Xp)
         \<and> impute_lags Xp h1 = Inr h2
         \<and> getitem (h1 ! Xp) ''lag_1'' = Inr [Null] \<and> getitem (h1 ! Xp) ''lag_2'' = Inr [Null]
         \<and> getitem (h2 ! Xp) ''lag_1'' = Inr [Num 0] \<and> getitem (h2 ! Xp) ''lag_2'' = Inr [Num 0]"
    using predict_from_df_imputes_lags [of 0 ?A, OF _ wA]
    by (auto simp: labels_def getitem_def)
  have b: "\<exists>h1 Xp h2. ensure_columns ?B 0 = Inr (h1, Xp)
         \<and> impute_lags Xp h1 = Inr h2
         \<and> getitem (h2 ! Xp) ''lag_1'' = Inr [Num 80, Num 80]
         \<and> getitem (h2 ! Xp) ''lag_2'' = Inr [Num 3, Num 5]"
    using predict_from_df_imputes_lags [of 0 ?B, OF _ wB]
    by (auto simp: getitem_def)
  show ?thesis using wA wB a b by blast
qed

subsection \<open>The prediction route\<close>

text \<open>
  C10. The \<open>input\<close> field of the response of \<open>predict\<close> is the first record of the frame
  that \<open>make_features\<close> built from the request, with a lag the request left out still null.
  \<open>predict_from_df\<close> works on frames of its own: it leaves every frame that was on the heap
  before the call, the built one among them, as it was, while the frame the model is given
  has 0.0 in place of an absent lag.
\<close>

theorem predict_input_echoes_built_vector:
  assumes t: "dateparse (req_timestamp req) = Some t"
  shows "\<exists>h1 X built.
           make_features dateparse h (PyStr (req_timestamp req)) (req_lag_1 req) (req_lag_2 req)
               (req_is_festival req) = Inr (h1, X)
         \<and> first_record (h1 ! X) = Inr built
         \<and> built =
             [(''lag_1'', case req_lag_1 req of Some x \<Rightarrow> Num x | None \<Rightarrow> Null),
              (''lag_2'', case req_lag_2 req of Some x \<Rightarrow> Num x | None \<Rightarrow> Null),
              (''hour'', Num (of_int (dt_hour t))),
              (''day_of_week'', Num (of_int (dt_dayofweek t))),
              (''month'', Num (of_int (dt_month t))),
              (''is_weekend'', Num (if dt_dayofweek t \<ge> 5 then 1 else 0)),
              (''is_festival'', Num (of_int (case req_is_festival req of Some i \<Rightarrow> i | None \<Rightarrow> 0)))]
         \<and> (\<forall>resp. predict dateparse model_file h req = Inr resp \<longrightarrow> input resp = built)
         \<and> (\<forall>h2 p. predict_from_df model_file h1 X = Inr (h2, p) \<longrightarrow>
                length h1 \<le> length h2 \<and> (\<forall>r < length h1. h2 ! r = h1 ! r))
         \<and> (\<forall>m. model_file = Some m \<longrightarrow>
               (\<exists>F. getitem F ''lag_1'' = Inr [case req_lag_1 req of Some x \<Rightarrow> Num x | None \<Rightarrow> Num 0]
                  \<and> getitem F ''lag_2'' = Inr [case req_lag_2 req of Some x \<Rightarrow> Num x | None \<Rightarrow> Num 0]
                  \<and> predict dateparse model_file h req =
                      (case m F of
                         Inl e \<Rightarrow> Inl (Uncaught e)
                       | Inr p \<Rightarrow>
                           (case float_of p of
                              Inl e \<Rightarrow> Inl (Uncaught e)
                            | Inr y \<Rightarrow> Inr \<lparr>prediction = y, input = built\<rparr>))))"
proof -
  define c1 where "c1 = (case req_lag_1 req of Some x \<Rightarrow> Num x | None \<Rightarrow> Null)"
  define c2 where "c2 = (case req_lag_2 req of Some x \<Rightarrow> Num x | None \<Rightarrow> Null)"
  define rest where "rest =
     [(''hour'', Num (of_int (dt_hour t))),
      (''day_of_week'', Num (of_int (dt_dayofweek t))),
      (''month'', Num (of_int (dt_month t))),
      (''is_weekend'', Num (if dt_dayofweek t \<ge> 5 then 1 else 0)),
      (''is_festival'', Num (of_int (case req_is_festival req of Some i \<Rightarrow> i | None \<Rightarrow> 0)))]"
  define built where "built = (''lag_1'', c1) # (''lag_2'', c2) # rest"
  define B where "B = \<lparr>nrows = 1, cols = map (\<lambda>(c, v). (c, [v])) built\<rparr>"
  let ?h1 = "h @ [B]"
  let ?X = "length h"
  have mf: "make_features dateparse h (PyStr (req_timestamp req)) (req_lag_1 req) (req_lag_2 req)
               (req_is_festival req) = Inr (?h1, ?X)"
    by (simp add: make_features_def parse_timestamp_def t alloc_def Let_def B_def built_def
          rest_def c1_def c2_def)
  have atB: "?h1 ! ?X = B" by simp
  have fr: "first_record B = Inr built"
    by (simp add: first_record_def B_def built_def rest_def)
  have X: "?X < length ?h1" by simp
  have wf: "wf_frame (?h1 ! ?X)"
    by (simp add: wf_frame_def labels_def B_def built_def rest_def)
  have m1: "map_of (cols (?h1 ! ?X)) ''lag_1'' = Some [c1]"
    and m2: "map_of (cols (?h1 ! ?X)) ''lag_2'' = Some [c2]"
    by (simp_all add: B_def built_def)
  from predict_from_df_result [OF X wf] obtain g f F where
    pred: "\<forall>m. predict_from_df (Some m) ?h1 ?X =
                  (case m F of Inl e \<Rightarrow> Inl e | Inr p \<Rightarrow> Inr (?h1 @ [g, F], p))"
    and colsF: "\<exists>r1 r2 rs. cols F =
         (''lag_1'', if list_all isna (case map_of (cols (?h1 ! ?X)) ''lag_1'' of Some v \<Rightarrow> v | None \<Rightarrow> r1)
                     then replicate (length (case map_of (cols (?h1 ! ?X)) ''lag_1'' of Some v \<Rightarrow> v | None \<Rightarrow> r1)) (Num 0)
                     else fillna (case map_of (cols (?h1 ! ?X)) ''lag_1'' of Some v \<Rightarrow> v | None \<Rightarrow> r1)
                            (mean (case map_of (cols (?h1 ! ?X)) ''lag_1'' of Some v \<Rightarrow> v | None \<Rightarrow> r1))) #
         (''lag_2'', if list_all isna (case map_of (cols (?h1 ! ?X)) ''lag_2'' of Some v \<Rightarrow> v | None \<Rightarrow> r2)
                     then replicate (length (case map_of (cols (?h1 ! ?X)) ''lag_2'' of Some v \<Rightarrow> v | None \<Rightarrow> r2)) (Num 0)
                     else fillna (case map_of (cols (?h1 ! ?X)) ''lag_2'' of Some v \<Rightarrow> v | None \<Rightarrow> r2)
                            (mean (case map_of (cols (?h1 ! ?X)) ''lag_2'' of Some v \<Rightarrow> v | None \<Rightarrow> r2))) # rs"
    by blast
  from colsF obtain rs where cF0: "cols F =
         (''lag_1'', if list_all isna [c1] then replicate (length [c1]) (Num 0)
                     else fillna [c1] (mean [c1])) #
         (''lag_2'', if list_all isna [c2] then replicate (length [c2]) (Num 0)
                     else fillna [c2] (mean [c2])) # rs"
    unfolding m1 m2 option.case by blast
  have cF: "map_of (cols F) ''lag_1'' =
               Some (if list_all isna [c1] then replicate (length [c1]) (Num 0)
                     else fillna [c1] (mean [c1]))"
            "map_of (cols F) ''lag_2'' =
               Some (if list_all isna [c2] then replicate (length [c2]) (Num 0)
                     else fillna [c2] (mean [c2]))"
    unfolding cF0 by simp_all
  have i1: "(if list_all isna [c1] then replicate (length [c1]) (Num 0) else fillna [c1] (mean [c1])) =
            [case req_lag_1 req of Some x \<Rightarrow> Num x | None \<Rightarrow> Num 0]"
    by (simp add: c1_def fillna_def split: option.splits)
  have i2: "(if list_all isna [c2] then replicate (length [c2]) (Num 0) else fillna [c2] (mean [c2])) =
            [case req_lag_2 req of Some x \<Rightarrow> Num x | None \<Rightarrow> Num 0]"
    by (simp add: c2_def fillna_def split: option.splits)
  have gF: "getitem F ''lag_1'' = Inr [case req_lag_1 req of Some x \<Rightarrow> Num x | None \<Rightarrow> Num 0]"
           "getitem F ''lag_2'' = Inr [case req_lag_2 req of Some x \<Rightarrow> Num x | None \<Rightarrow> Num 0]"
    unfolding getitem_def cF i1 i2 by simp_all
  have keep: "(?h1 @ [g, F]) ! ?X = B" by (simp add: nth_append)
  have run: "predict dateparse (Some m) h req =
               (case m F of
                  Inl e \<Rightarrow> Inl (Uncaught e)
                | Inr p \<Rightarrow>
                    (case float_of p of
                       Inl e \<Rightarrow> Inl (Uncaught e)
                     | Inr y \<Rightarrow> Inr \<lparr>prediction = y, input = built\<rparr>))" for m
    unfolding predict_def mf
    by (simp add: pred keep fr split: sum.splits)
  have none: "predict dateparse None h req = Inl (Uncaught FileNotFoundError)"
    unfolding predict_def mf by (simp add: predict_from_df_def load_model_def)
  have echo: "input resp = built" if "predict dateparse model_file h req = Inr resp" for resp
  proof (cases model_file)
    case None
    with that none show ?thesis by simp
  next
    case (Some m)
    with that run [of m] show ?thesis by (auto split: sum.splits)
  qed
  have frame: "length ?h1 \<le> length h2 \<and> (\<forall>r < length ?h1. h2 ! r = ?h1 ! r)"
    if "predict_from_df model_file ?h1 ?X = Inr (h2, p)" for h2 p
  proof (cases model_file)
    case None
    with that show ?thesis by (simp add: predict_from_df_def load_model_def)
  next
    case (Some m)
    with that pred have "h2 = ?h1 @ [g, F]" by (auto split: sum.splits)
    then show ?thesis by (simp add: nth_append)
  qed
  show ?thesis
    apply (rule exI [of _ ?h1])
    apply (rule exI [of _ ?X])
    apply (rule exI [of _ built])
    apply (intro conjI)
    subgoal by (rule mf)
    subgoal by (simp only: atB fr)
    subgoal by (simp add: built_def rest_def c1_def c2_def)
    subgoal using echo by blast
    subgoal using frame by blast
    subgoal using gF run by blast
    done
qed

theorem predict_input_echoes_built_vector_witness:
  "(\<lambda>s. if s = ''2025-12-07T15:00:00''
         then Some \<lparr>instant = 0, dt_hour = 15, dt_dayofweek = 6, dt_month = 12\<rparr> else None)
     (req_timestamp \<lparr>req_timestamp = ''2025-12-07T15:00:00'', req_lag_1 = None, req_lag_2 = Some 100,
                     req_is_festival = None\<rparr>) =
     Some \<lparr>instant = 0, dt_hour = 15, dt_dayofweek = 6, dt_month = 12\<rparr>
   \<and> predict
       (\<lambda>s. if s = ''2025-12-07T15:00:00''
            then Some \<lparr>instant = 0, dt_hour = 15, dt_dayofweek = 6, dt_month = 12\<rparr> else None)
       (Some (\<lambda>f. case getitem f ''lag_1'' of Inr [Num x] \<Rightarrow> Inr [x + 1000] | _ \<Rightarrow> Inl TypeError))
       []
       \<lparr>req_timestamp = ''2025-12-07T15:00:00'', req_lag_1 = None, req_lag_2 = Some 100,
        req_is_festival = None\<rparr> =
     Inr \<lparr>prediction = 1000,
          input = [(''lag_1'', Null), (''lag_2'', Num 100), (''hour'', Num 15), (''day_of_week'', Num 6),
                   (''month'', Num 12), (''is_weekend'', Num 1), (''is_festival'', Num 0)]\<rparr>"
proof -
  let ?dp = "\<lambda>s. if s = ''2025-12-07T15:00:00''
         then Some \<lparr>instant = 0, dt_hour = 15, dt_dayofweek = 6, dt_month = 12\<rparr> else None"
  let ?req = "\<lparr>req_timestamp = ''2025-12-07T15:00:00'', req_lag_1 = None, req_lag_2 = Some 100,
        req_is_festival = None\<rparr>"
  let ?m = "\<lambda>f. case getitem f ''lag_1'' of Inr [Num x] \<Rightarrow> Inr [x + 1000] | _ \<Rightarrow> Inl TypeError"
  have p: "?dp (req_timestamp ?req) = Some \<lparr>instant = 0, dt_hour = 15, dt_dayofweek = 6, dt_month = 12\<rparr>"
    by simp
  from predict_input_echoes_built_vector
         [where dateparse = ?dp and req = ?req and h = "[]" and model_file = "Some ?m", OF p]
  obtain built F where
    b: "built = [(''lag_1'', Null), (''lag_2'', Num 100), (''hour'', Num 15), (''day_of_week'', Num 6),
                   (''month'', Num 12), (''is_weekend'', Num 1), (''is_festival'', Num 0)]"
    and g: "getitem F ''lag_1'' = Inr [Num 0]"
    and r: "predict ?dp (Some ?m) [] ?req =
              (case ?m F of
                 Inl e \<Rightarrow> Inl (Uncaught e)
               | Inr p \<Rightarrow>
                   (case float_of p of
                      Inl e \<Rightarrow> Inl (Uncaught e)
                    | Inr y \<Rightarrow> Inr \<lparr>prediction = y, input = built\<rparr>))"
    by auto
  show ?thesis
    using p unfolding r g b by (simp add: float_of_def)
qed

text \<open>
  C6. \<open>_parse_timestamp\<close> fails exactly for \<open>None\<close> and for a text that the parser
  rejects. For such a text the two routes differ: \<open>report\<close> catches the failure and raises
  \<open>HTTPException(400)\<close>, leaving the store as it was, while \<open>predict\<close> lets the
  \<open>ValueError\<close> leave the handler uncaught.
\<close>

theorem invalid_timestamp_on_predict_and_report:
  "(parse_timestamp dateparse a = Inl e \<longleftrightarrow>
      (a = PyNone \<and> e = ValueError Timestamp_required)
      \<or> (\<exists>s. a = PyStr s \<and> dateparse s = None \<and> e = ValueError Invalid_timestamp_format))
   \<and> (dateparse s = None \<longrightarrow>
        predict dateparse model_file h \<lparr>req_timestamp = s, req_lag_1 = l1, req_lag_2 = l2,
                                        req_is_festival = fest\<rparr> =
          Inl (Uncaught (ValueError Invalid_timestamp_format))
        \<and> report dateparse strftime csv \<lparr>rep_timestamp = s, actual_page_views = n,
                                          rep_is_festival = fest\<rparr> =
          (Inl (HTTPException 400 ''Invalid timestamp format''), csv))"
  by (cases a)
     (auto simp: parse_timestamp_def predict_def make_features_def report_def split: option.splits)

theorem invalid_timestamp_on_predict_and_report_witness:
  "predict (\<lambda>s. None) None [] \<lparr>req_timestamp = ''not a timestamp'', req_lag_1 = None,
                               req_lag_2 = None, req_is_festival = None\<rparr> =
     Inl (Uncaught (ValueError Invalid_timestamp_format))
   \<and> report (\<lambda>s. None) (\<lambda>t. '''') None \<lparr>rep_timestamp = ''not a timestamp'', actual_page_views = 5,
                                         rep_is_festival = None\<rparr> =
     (Inl (HTTPException 400 ''Invalid timestamp format''), None)"
  using invalid_timestamp_on_predict_and_report
    [of "\<lambda>s. None" PyNone "ValueError Timestamp_required" "''not a timestamp''" None "[]" None None
        None "\<lambda>t. ''''" None 5]
  by simp

subsection \<open>Loading the observation store\<close>

text \<open>
  C7. On a store with a timestamp column, \<open>load_recent_data\<close> raises the \<open>ValueError\<close>
  "Not enough valid data for drift detection. Need \<open>window + 2\<close>, got \<open>n\<close>" whenever the
  number \<open>n\<close> of rows whose timestamp parses is below \<open>window + 2\<close>, and returns a frame
  whenever it is not. For the drift check, whose window is 20: with fewer than 22 valid rows
  \<open>detect_drift\<close> ends with that error, naming 22 and \<open>n\<close>.
\<close>

theorem load_recent_data_insufficient_history:
  assumes "data_csv fs = Some df0" and "''timestamp'' \<in> set (columns df0)"
  shows "(int (length (filter (\<lambda>r. to_datetime (strip (timestamp r)) \<noteq> None) (rows df0))) < window + 2 \<longrightarrow>
            fst (load_recent_data to_datetime fs window) =
              Inl (ValueError (Not_enough_valid_data (window + 2)
                     (int (length (filter (\<lambda>r. to_datetime (strip (timestamp r)) \<noteq> None) (rows df0)))))))
       \<and> (window + 2 \<le> int (length (filter (\<lambda>r. to_datetime (strip (timestamp r)) \<noteq> None) (rows df0))) \<longrightarrow>
            (\<exists>df. fst (load_recent_data to_datetime fs window) = Inr df))
       \<and> (int (length (filter (\<lambda>r. to_datetime (strip (timestamp r)) \<noteq> None) (rows df0))) < 22 \<longrightarrow>
            fst (load_recent_data to_datetime fs 20) =
              Inl (ValueError (Not_enough_valid_data 22
                     (int (length (filter (\<lambda>r. to_datetime (strip (timestamp r)) \<noteq> None) (rows df0))))))
            \<and> fst (detect_drift to_datetime now fs) =
              Inl (ValueError (Not_enough_valid_data 22
                     (int (length (filter (\<lambda>r. to_datetime (strip (timestamp r)) \<noteq> None) (rows df0)))))))
       \<and> (22 \<le> int (length (filter (\<lambda>r. to_datetime (strip (timestamp r)) \<noteq> None) (rows df0))) \<longrightarrow>
            (\<exists>df. fst (load_recent_data to_datetime fs 20) = Inr df))"
proof -
  let ?n = "int (length (filter (\<lambda>r. to_datetime (strip (timestamp r)) \<noteq> None) (rows df0)))"
  have a: "fst (load_recent_data to_datetime fs w) = Inl (ValueError (Not_enough_valid_data (w + 2) ?n))"
    if "?n < w + 2" for w
    using that by (simp add: load_recent_data_result [OF assms] Let_def length_valid)
  have b: "\<exists>df. fst (load_recent_data to_datetime fs w) = Inr df" if "w + 2 \<le> ?n" for w
    using that by (simp add: load_recent_data_result [OF assms] Let_def length_valid)
  have c: "fst (detect_drift to_datetime now fs) = Inl (ValueError (Not_enough_valid_data 22 ?n))"
    if "?n < 22"
    using a [of 20] that by (intro detect_drift_load_error) simp
  show ?thesis using a [of window] b [of window] a [of 20] b [of 20] c by simp
qed

theorem load_recent_data_insufficient_history_witness:
  "fst (load_recent_data hour_of_day small_fs 20) = Inl (ValueError (Not_enough_valid_data 22 3))
   \<and> fst (detect_drift hour_of_day ''now'' small_fs) = Inl (ValueError (Not_enough_valid_data 22 3))
   \<and> (\<exists>df. fst (load_recent_data hour_of_day small_fs 1) = Inr df)
   \<and> (\<exists>df. fst (load_recent_data hour_of_day example_fs 20) = Inr df)"
proof -
  have d: "data_csv small_fs = Some small_store" by (simp add: small_fs_def)
  have c: "''timestamp'' \<in> set (columns small_store)" by (simp add: small_store_def)
  have n: "int (length (filter (\<lambda>r. hour_of_day (strip (timestamp r)) \<noteq> None) (rows small_store))) = 3"
    by code_simp
  have d': "data_csv example_fs = Some example_store" by (simp add: example_fs_def)
  have c': "''timestamp'' \<in> set (columns example_store)" by (simp add: example_store_def)
  have n': "int (length (filter (\<lambda>r. hour_of_day (strip (timestamp r)) \<noteq> None) (rows example_store))) = 22"
    by code_simp
  show ?thesis
    using load_recent_data_insufficient_history [OF d c, of hour_of_day 20 "''now''"]
      load_recent_data_insufficient_history [OF d c, of hour_of_day 1 "''now''"]
      load_recent_data_insufficient_history [OF d' c', of hour_of_day 20 "''now''"]
    unfolding n n' by simp
qed

text \<open>
  C8. On a store with a timestamp column \<open>load_data\<close> never fails: it returns exactly the
  rows whose timestamp parses, each with its parsed timestamp, in ascending order of time.
  When some rows do not parse, it prints their number and writes them to the side file
  \<open>bad_timestamp_rows.csv\<close>; the store itself is left as it was. \<open>load_recent_data\<close>
  prints the same and writes the same rows to \<open>bad_timestamp_rows_for_drift.csv\<close>. With one
  malformed row among \<open>N\<close> valid ones, \<open>N\<close> rows are returned and the number printed is 1.
\<close>

theorem load_data_quarantines_malformed_rows:
  assumes d: "data_csv fs = Some df0" and c: "''timestamp'' \<in> set (columns df0)"
  shows "\<exists>df fs1 res fs2.
           load_data to_datetime fs = (Inr df, fs1)
         \<and> load_recent_data to_datetime fs window = (res, fs2)
         \<and> columns df = columns df0
         \<and> mset (rows df) =
             mset (coerce_timestamps to_datetime
                     (filter (\<lambda>r. to_datetime (strip (timestamp r)) \<noteq> None) (rows df0)))
         \<and> sorted (map ts_key (rows df))
         \<and> length (rows df) + length (filter (\<lambda>r. to_datetime (strip (timestamp r)) = None) (rows df0)) =
             length (rows df0)
         \<and> data_csv fs1 = data_csv fs \<and> data_csv fs2 = data_csv fs
         \<and> (0 < length (filter (\<lambda>r. to_datetime (strip (timestamp r)) = None) (rows df0)) \<longrightarrow>
               stdout fs1 = stdout fs @
                 [Warning_invalid_timestamps
                    (length (filter (\<lambda>r. to_datetime (strip (timestamp r)) = None) (rows df0))),
                  Bad_rows_saved]
             \<and> bad_timestamp_rows fs1 =
                 Some \<lparr>columns = columns df0,
                       rows = coerce_timestamps to_datetime
                                (filter (\<lambda>r. to_datetime (strip (timestamp r)) = None) (rows df0))\<rparr>
             \<and> stdout fs2 = stdout fs1
             \<and> bad_timestamp_rows_for_drift fs2 = bad_timestamp_rows fs1)
         \<and> (length (filter (\<lambda>r. to_datetime (strip (timestamp r)) = None) (rows df0)) = 0 \<longrightarrow>
               fs1 = fs \<and> fs2 = fs)
         \<and> (length (filter (\<lambda>r. to_datetime (strip (timestamp r)) = None) (rows df0)) = 1 \<longrightarrow>
               length (rows df) + 1 = length (rows df0)
             \<and> stdout fs1 = stdout fs @ [Warning_invalid_timestamps 1, Bad_rows_saved])"
proof -
  let ?bad = "filter (\<lambda>r. to_datetime (strip (timestamp r)) = None) (rows df0)"
  let ?good = "filter (\<lambda>r. to_datetime (strip (timestamp r)) \<noteq> None) (rows df0)"
  let ?df = "coerce_timestamps to_datetime (rows df0)"
  let ?v = "sort_values_timestamp (dropna_timestamp ?df)"
  let ?fs1 = "if filter isnat ?df \<noteq> []
                 then fs\<lparr>stdout := stdout fs @ [Warning_invalid_timestamps (length (filter isnat ?df)), Bad_rows_saved],
                          bad_timestamp_rows := Some \<lparr>columns = columns df0, rows = filter isnat ?df\<rparr>\<rparr>
                 else fs"
  have ld: "load_data to_datetime fs = (Inr \<lparr>columns = columns df0, rows = ?v\<rparr>, ?fs1)"
    by (simp add: load_data_result [OF d c] Let_def)
  obtain res fs2 where lr: "load_recent_data to_datetime fs window = (res, fs2)"
    by (cases "load_recent_data to_datetime fs window")
  have fs2: "fs2 = (if filter isnat ?df \<noteq> []
                 then fs\<lparr>stdout := stdout fs @ [Warning_invalid_timestamps (length (filter isnat ?df)), Bad_rows_saved],
                          bad_timestamp_rows_for_drift := Some \<lparr>columns = columns df0, rows = filter isnat ?df\<rparr>\<rparr>
                 else fs)"
    using lr by (simp add: load_recent_data_result [OF d c] Let_def split: if_splits)
  have bad: "filter isnat ?df = coerce_timestamps to_datetime ?bad"
    by (rule filter_isnat_coerce_bad)
  have lb: "length (filter isnat ?df) = length ?bad"
    by (simp add: bad length_coerce)
  have ne: "filter isnat ?df \<noteq> [] \<longleftrightarrow> 0 < length ?bad"
    using lb by (metis length_greater_0_conv)
  have cnt: "length ?v + length ?bad = length (rows df0)"
    using sum_length_filter_compl [of "\<lambda>r. to_datetime (strip (timestamp r)) = None" "rows df0"]
    by (simp add: length_valid)
  show ?thesis
    apply (rule exI [of _ "\<lparr>columns = columns df0, rows = ?v\<rparr>"])
    apply (rule exI [of _ ?fs1])
    apply (rule exI [of _ res])
    apply (rule exI [of _ fs2])
    apply (intro conjI)
    subgoal by (rule ld)
    subgoal by (rule lr)
    subgoal by simp
    subgoal by (simp add: mset_valid)
    subgoal by (simp add: sorted_valid)
    subgoal using cnt by simp
    subgoal by simp
    subgoal by (simp add: fs2)
    subgoal using ne by (simp add: fs2 lb bad length_coerce)
    subgoal using ne by (simp add: fs2)
    subgoal using ne cnt by (simp add: lb)
    done
qed

theorem load_data_quarantines_malformed_rows_witness:
  "(\<exists>df fs1. load_data hour_of_day small_fs = (Inr df, fs1)
     \<and> length (rows df) = 3
     \<and> mset (rows df) =
         {#\<lparr>timestamp = Some \<lparr>instant = 3, dt_hour = 3, dt_dayofweek = 6, dt_month = 12\<rparr>,
             page_views = Num 95, is_festival = Num 1\<rparr>,
           \<lparr>timestamp = Some \<lparr>instant = 2, dt_hour = 2, dt_dayofweek = 6, dt_month = 12\<rparr>,
             page_views = Num 90, is_festival = Num 1\<rparr>,
           \<lparr>timestamp = Some \<lparr>instant = 0, dt_hour = 0, dt_dayofweek = 6, dt_month = 12\<rparr>,
             page_views = Num 100, is_festival = Num 0\<rparr>#}
     \<and> stdout fs1 = [Warning_invalid_timestamps 1, Bad_rows_saved]
     \<and> bad_timestamp_rows fs1 =
         Some \<lparr>columns = [''timestamp'', ''page_views'', ''is_festival''],
               rows = [\<lparr>timestamp = None, page_views = Num 110, is_festival = Num 0\<rparr>]\<rparr>
     \<and> data_csv fs1 = Some small_store)
   \<and> (\<exists>df. load_data hour_of_day
              (small_fs\<lparr>data_csv := Some \<lparr>columns = [''timestamp'', ''page_views''],
                 rows = [\<lparr>timestamp = ''07'', page_views = Num 1, is_festival = Null\<rparr>]\<rparr>\<rparr>) =
           (Inr df, small_fs\<lparr>data_csv := Some \<lparr>columns = [''timestamp'', ''page_views''],
                 rows = [\<lparr>timestamp = ''07'', page_views = Num 1, is_festival = Null\<rparr>]\<rparr>\<rparr>)
         \<and> length (rows df) = 1)"
proof -
  let ?clean = "\<lparr>columns = [''timestamp'', ''page_views''],
                 rows = [\<lparr>timestamp = ''07'', page_views = Num 1, is_festival = Null\<rparr>]\<rparr>"
  have d: "data_csv small_fs = Some small_store" by (simp add: small_fs_def)
  have c: "''timestamp'' \<in> set (columns small_store)" by (simp add: small_store_def)
  have bad: "filter (\<lambda>r. hour_of_day (strip (timestamp r)) = None) (rows small_store) =
               [\<lparr>timestamp = ''bad'', page_views = Num 110, is_festival = Num 0\<rparr>]"
    by code_simp
  have good: "coerce_timestamps hour_of_day
                (filter (\<lambda>r. hour_of_day (strip (timestamp r)) \<noteq> None) (rows small_store)) =
               [\<lparr>timestamp = Some \<lparr>instant = 3, dt_hour = 3, dt_dayofweek = 6, dt_month = 12\<rparr>,
             page_views = Num 95, is_festival = Num 1\<rparr>,
           \<lparr>timestamp = Some \<lparr>instant = 2, dt_hour = 2, dt_dayofweek = 6, dt_month = 12\<rparr>,
             page_views = Num 90, is_festival = Num 1\<rparr>,
           \<lparr>timestamp = Some \<lparr>instant = 0, dt_hour = 0, dt_dayofweek = 6, dt_month = 12\<rparr>,
             page_views = Num 100, is_festival = Num 0\<rparr>]"
    by code_simp
  have cb: "coerce_timestamps hour_of_day [\<lparr>timestamp = ''bad'', page_views = Num 110, is_festival = Num 0\<rparr>] =
              [\<lparr>timestamp = None, page_views = Num 110, is_festival = Num 0\<rparr>]"
    by code_simp
  have cs: "columns small_store = [''timestamp'', ''page_views'', ''is_festival'']"
    by (simp add: small_store_def)
  have a: "\<exists>df fs1. load_data hour_of_day small_fs = (Inr df, fs1)
     \<and> length (rows df) = 3
     \<and> mset (rows df) =
         {#\<lparr>timestamp = Some \<lparr>instant = 3, dt_hour = 3, dt_dayofweek = 6, dt_month = 12\<rparr>,
             page_views = Num 95, is_festival = Num 1\<rparr>,
           \<lparr>timestamp = Some \<lparr>instant = 2, dt_hour = 2, dt_dayofweek = 6, dt_month = 12\<rparr>,
             page_views = Num 90, is_festival = Num 1\<rparr>,
           \<lparr>timestamp = Some \<lparr>instant = 0, dt_hour = 0, dt_dayofweek = 6, dt_month = 12\<rparr>,
             page_views = Num 100, is_festival = Num 0\<rparr>#}
     \<and> stdout fs1 = [Warning_invalid_timestamps 1, Bad_rows_saved]
     \<and> bad_timestamp_rows fs1 =
         Some \<lparr>columns = [''timestamp'', ''page_views'', ''is_festival''],
               rows = [\<lparr>timestamp = None, page_views = Num 110, is_festival = Num 0\<rparr>]\<rparr>
     \<and> data_csv fs1 = Some small_store"
    using load_data_quarantines_malformed_rows [OF d c, of hour_of_day 20]
    unfolding bad good cb cs by (auto simp: small_fs_def small_store_def)
  have d2: "data_csv (small_fs\<lparr>data_csv := Some ?clean\<rparr>) = Some ?clean" by simp
  have c2: "''timestamp'' \<in> set (columns ?clean)" by simp
  have nb: "filter (\<lambda>r. hour_of_day (strip (timestamp r)) = None) (rows ?clean) = []"
    by code_simp
  have b: "\<exists>df. load_data hour_of_day (small_fs\<lparr>data_csv := Some ?clean\<rparr>) =
           (Inr df, small_fs\<lparr>data_csv := Some ?clean\<rparr>) \<and> length (rows df) = 1"
    using load_data_quarantines_malformed_rows [OF d2 c2, of hour_of_day 20]
    unfolding nb by auto
  from a b show ?thesis by blast
qed

subsection \<open>Historical feature derivation\<close>

text \<open>
  C4. \<open>build_features\<close> (and \<open>build_training_features\<close>, which selects the feature
  columns and \<open>page_views\<close> of the same rows) gives row \<open>i\<close> of the history
  \<open>lag_1 = page_views[i-1]\<close> and \<open>lag_2 = page_views[i-2]\<close>, null where there is no such
  row, and the hour, day of week, month and weekend flag of the row's own timestamp; it then
  drops every row with a null cell, so the first two rows are always dropped. On the three
  observations \<open>(t1, 100, 0), (t2, 110, 0), (t3, 90, 1)\<close> the result is the one row for
  \<open>t3\<close>, with \<open>lag_1 = 110\<close>, \<open>lag_2 = 100\<close> and \<open>is_festival = 1\<close>.
\<close>

theorem build_features_lags_and_drops:
  assumes pv: "''page_views'' \<in> set (columns df)" and ts: "''timestamp'' \<in> set (columns df)"
  shows "\<exists>out. build_features df = Inr out
         \<and> rows out = filter (row_complete (columns df)) (drop 2 (add_features (rows df)))
         \<and> length (add_features (rows df)) = length (rows df)
         \<and> (\<forall>i < length (rows df).
               timestamp (add_features (rows df) ! i) = timestamp (rows df ! i)
             \<and> page_views (add_features (rows df) ! i) = page_views (rows df ! i)
             \<and> is_festival (add_features (rows df) ! i) = is_festival (rows df ! i)
             \<and> lag_1 (add_features (rows df) ! i) = (if i < 1 then Null else page_views (rows df ! (i - 1)))
             \<and> lag_2 (add_features (rows df) ! i) = (if i < 2 then Null else page_views (rows df ! (i - 2)))
             \<and> hour (add_features (rows df) ! i) =
                 (case timestamp (rows df ! i) of None \<Rightarrow> Null | Some t \<Rightarrow> Num (of_int (dt_hour t)))
             \<and> day_of_week (add_features (rows df) ! i) =
                 (case timestamp (rows df ! i) of None \<Rightarrow> Null | Some t \<Rightarrow> Num (of_int (dt_dayofweek t)))
             \<and> month (add_features (rows df) ! i) =
                 (case timestamp (rows df ! i) of None \<Rightarrow> Null | Some t \<Rightarrow> Num (of_int (dt_month t)))
             \<and> is_weekend (add_features (rows df) ! i) =
                 (case timestamp (rows df ! i) of
                    None \<Rightarrow> Num 0
                  | Some t \<Rightarrow> Num (if dt_dayofweek t \<ge> 5 then 1 else 0)))
         \<and> (\<forall>r \<in> set (rows out). row_complete (columns df) r)
         \<and> ((\<forall>r \<in> set (rows df). timestamp r \<noteq> None \<and> \<not> isna (page_views r) \<and> \<not> isna (is_festival r))
               \<longrightarrow> rows out = drop 2 (add_features (rows df))
                 \<and> length (rows out) = length (rows df) - 2)
         \<and> (''is_festival'' \<in> set (columns df) \<longrightarrow>
               build_training_features df = Inr (feature_frame (rows out), map page_views (rows out)))
         \<and> (rows df = [\<lparr>timestamp = Some t1, page_views = Num 100, is_festival = Num 0\<rparr>,
                        \<lparr>timestamp = Some t2, page_views = Num 110, is_festival = Num 0\<rparr>,
                        \<lparr>timestamp = Some t3, page_views = Num 90, is_festival = Num 1\<rparr>]
               \<longrightarrow> rows out =
                     [\<lparr>timestamp = Some t3, page_views = Num 90, is_festival = Num 1,
                       lag_1 = Num 110, lag_2 = Num 100,
                       hour = Num (of_int (dt_hour t3)),
                       day_of_week = Num (of_int (dt_dayofweek t3)),
                       month = Num (of_int (dt_month t3)),
                       is_weekend = Num (if dt_dayofweek t3 \<ge> 5 then 1 else 0)\<rparr>])"
proof -
  let ?out = "\<lparr>columns = add_labels (columns df),
                rows = filter (row_complete (columns df)) (drop 2 (add_features (rows df)))\<rparr>"
  have bf: "build_features df = Inr ?out"
    by (rule build_features_result [OF pv ts])
  have nth: "timestamp (add_features (rows df) ! i) = timestamp (rows df ! i)
             \<and> page_views (add_features (rows df) ! i) = page_views (rows df ! i)
             \<and> is_festival (add_features (rows df) ! i) = is_festival (rows df ! i)
             \<and> lag_1 (add_features (rows df) ! i) = (if i < 1 then Null else page_views (rows df ! (i - 1)))
             \<and> lag_2 (add_features (rows df) ! i) = (if i < 2 then Null else page_views (rows df ! (i - 2)))
             \<and> hour (add_features (rows df) ! i) =
                 (case timestamp (rows df ! i) of None \<Rightarrow> Null | Some t \<Rightarrow> Num (of_int (dt_hour t)))
             \<and> day_of_week (add_features (rows df) ! i) =
                 (case timestamp (rows df ! i) of None \<Rightarrow> Null | Some t \<Rightarrow> Num (of_int (dt_dayofweek t)))
             \<and> month (add_features (rows df) ! i) =
                 (case timestamp (rows df ! i) of None \<Rightarrow> Null | Some t \<Rightarrow> Num (of_int (dt_month t)))
             \<and> is_weekend (add_features (rows df) ! i) =
                 (case timestamp (rows df ! i) of
                    None \<Rightarrow> Num 0
                  | Some t \<Rightarrow> Num (if dt_dayofweek t \<ge> 5 then 1 else 0))"
    if "i < length (rows df)" for i
    by (simp add: nth_add_features [OF that] dt_def ge5_def split: option.splits)
  have full: "rows ?out = drop 2 (add_features (rows df)) \<and> length (rows ?out) = length (rows df) - 2"
    if "\<forall>r \<in> set (rows df). timestamp r \<noteq> None \<and> \<not> isna (page_views r) \<and> \<not> isna (is_festival r)"
    using dropna_complete_history [OF that, of "columns df"]
    by (simp add: dropna_first_two length_add_features)
  have tr: "build_training_features df = Inr (feature_frame (rows ?out), map page_views (rows ?out))"
    if "''is_festival'' \<in> set (columns df)"
    using that by (simp add: build_training_features_def bf set_add_labels)
  have ex: "rows ?out =
                     [\<lparr>timestamp = Some t3, page_views = Num 90, is_festival = Num 1,
                       lag_1 = Num 110, lag_2 = Num 100,
                       hour = Num (of_int (dt_hour t3)),
                       day_of_week = Num (of_int (dt_dayofweek t3)),
                       month = Num (of_int (dt_month t3)),
                       is_weekend = Num (if dt_dayofweek t3 \<ge> 5 then 1 else 0)\<rparr>]"
    if "rows df = [\<lparr>timestamp = Some t1, page_views = Num 100, is_festival = Num 0\<rparr>,
                        \<lparr>timestamp = Some t2, page_views = Num 110, is_festival = Num 0\<rparr>,
                        \<lparr>timestamp = Some t3, page_views = Num 90, is_festival = Num 1\<rparr>]"
    by (simp add: that add_features_def shift_def row_complete_def dt_def ge5_def)
  show ?thesis
    apply (rule exI [of _ ?out])
    apply (intro conjI)
    subgoal by (rule bf)
    subgoal by simp
    subgoal by (rule length_add_features)
    subgoal using nth by blast
    subgoal by simp
    subgoal using full by blast
    subgoal using tr by blast
    subgoal using ex by blast
    done
qed

theorem build_features_lags_and_drops_witness:
  "\<exists>out. build_features three_rows = Inr out
     \<and> rows out =
          [\<lparr>timestamp = Some \<lparr>instant = 3, dt_hour = 3, dt_dayofweek = 5, dt_month = 12\<rparr>,
            page_views = Num 90, is_festival = Num 1,
            lag_1 = Num 110, lag_2 = Num 100,
            hour = Num 3, day_of_week = Num 5, month = Num 12, is_weekend = Num 1\<rparr>]
     \<and> length (rows out) = length (rows three_rows) - 2
     \<and> lag_1 (add_features (rows three_rows) ! 0) = Null
     \<and> lag_1 (add_features (rows three_rows) ! 1) = Num 100
     \<and> lag_2 (add_features (rows three_rows) ! 1) = Null
     \<and> build_training_features three_rows =
          Inr (\<lparr>nrows = 1,
                cols = [(''lag_1'', [Num 110]), (''lag_2'', [Num 100]), (''hour'', [Num 3]),
                        (''day_of_week'', [Num 5]), (''month'', [Num 12]), (''is_weekend'', [Num 1]),
                        (''is_festival'', [Num 1])]\<rparr>,
               [Num 90])"
proof -
  have pv: "''page_views'' \<in> set (columns three_rows)" and ts: "''timestamp'' \<in> set (columns three_rows)"
    and fest: "''is_festival'' \<in> set (columns three_rows)"
    by (simp_all add: three_rows_def)
  have rs: "rows three_rows =
             [\<lparr>timestamp = Some \<lparr>instant = 1, dt_hour = 1, dt_dayofweek = 5, dt_month = 12\<rparr>,
                page_views = Num 100, is_festival = Num 0\<rparr>,
              \<lparr>timestamp = Some \<lparr>instant = 2, dt_hour = 2, dt_dayofweek = 5, dt_month = 12\<rparr>,
                page_views = Num 110, is_festival = Num 0\<rparr>,
              \<lparr>timestamp = Some \<lparr>instant = 3, dt_hour = 3, dt_dayofweek = 5, dt_month = 12\<rparr>,
                page_views = Num 90, is_festival = Num 1\<rparr>]"
    by (simp add: three_rows_def)
  from build_features_lags_and_drops [OF pv ts,
      of "\<lparr>instant = 1, dt_hour = 1, dt_dayofweek = 5, dt_month = 12\<rparr>"
         "\<lparr>instant = 2, dt_hour = 2, dt_dayofweek = 5, dt_month = 12\<rparr>"
         "\<lparr>instant = 3, dt_hour = 3, dt_dayofweek = 5, dt_month = 12\<rparr>"]
  obtain out where b: "build_features three_rows = Inr out"
    and l: "\<forall>i < length (rows three_rows).
               timestamp (add_features (rows three_rows) ! i) = timestamp (rows three_rows ! i)
             \<and> page_views (add_features (rows three_rows) ! i) = page_views (rows three_rows ! i)
             \<and> is_festival (add_features (rows three_rows) ! i) = is_festival (rows three_rows ! i)
             \<and> lag_1 (add_features (rows three_rows) ! i) = (if i < 1 then Null else page_views (rows three_rows ! (i - 1)))
             \<and> lag_2 (add_features (rows three_rows) ! i) = (if i < 2 then Null else page_views (rows three_rows ! (i - 2)))
             \<and> hour (add_features (rows three_rows) ! i) =
                 (case timestamp (rows three_rows ! i) of None \<Rightarrow> Null | Some t \<Rightarrow> Num (of_int (dt_hour t)))
             \<and> day_of_week (add_features (rows three_rows) ! i) =
                 (case timestamp (rows three_rows ! i) of None \<Rightarrow> Null | Some t \<Rightarrow> Num (of_int (dt_dayofweek t)))
             \<and> month (add_features (rows three_rows) ! i) =
                 (case timestamp (rows three_rows ! i) of None \<Rightarrow> Null | Some t \<Rightarrow> Num (of_int (dt_month t)))
             \<and> is_weekend (add_features (rows three_rows) ! i) =
                 (case timestamp (rows three_rows ! i) of
                    None \<Rightarrow> Num 0
                  | Some t \<Rightarrow> Num (if dt_dayofweek t \<ge> 5 then 1 else 0))"
    and t': "''is_festival'' \<in> set (columns three_rows) \<longrightarrow>
               build_training_features three_rows = Inr (feature_frame (rows out), map page_views (rows out))"
    and r': "rows three_rows =
                [\<lparr>timestamp = Some \<lparr>instant = 1, dt_hour = 1, dt_dayofweek = 5, dt_month = 12\<rparr>,
                   page_views = Num 100, is_festival = Num 0\<rparr>,
                 \<lparr>timestamp = Some \<lparr>instant = 2, dt_hour = 2, dt_dayofweek = 5, dt_month = 12\<rparr>,
                   page_views = Num 110, is_festival = Num 0\<rparr>,
                 \<lparr>timestamp = Some \<lparr>instant = 3, dt_hour = 3, dt_dayofweek = 5, dt_month = 12\<rparr>,
                   page_views = Num 90, is_festival = Num 1\<rparr>]
               \<longrightarrow> rows out =
                     [\<lparr>timestamp = Some \<lparr>instant = 3, dt_hour = 3, dt_dayofweek = 5, dt_month = 12\<rparr>,
                       page_views = Num 90, is_festival = Num 1,
                       lag_1 = Num 110, lag_2 = Num 100,
                       hour = Num (of_int (dt_hour \<lparr>instant = 3, dt_hour = 3, dt_dayofweek = 5, dt_month = 12\<rparr>)),
                       day_of_week = Num (of_int (dt_dayofweek \<lparr>instant = 3, dt_hour = 3, dt_dayofweek = 5, dt_month = 12\<rparr>)),
                       month = Num (of_int (dt_month \<lparr>instant = 3, dt_hour = 3, dt_dayofweek = 5, dt_month = 12\<rparr>)),
                       is_weekend = Num (if dt_dayofweek \<lparr>instant = 3, dt_hour = 3, dt_dayofweek = 5, dt_month = 12\<rparr> \<ge> 5 then 1 else 0)\<rparr>]"
    by blast
  from t' fest have t: "build_training_features three_rows = Inr (feature_frame (rows out), map page_views (rows out))"
    by (rule mp)
  from r' rs have "rows out =
                     [\<lparr>timestamp = Some \<lparr>instant = 3, dt_hour = 3, dt_dayofweek = 5, dt_month = 12\<rparr>,
                       page_views = Num 90, is_festival = Num 1,
                       lag_1 = Num 110, lag_2 = Num 100,
                       hour = Num (of_int (dt_hour \<lparr>instant = 3, dt_hour = 3, dt_dayofweek = 5, dt_month = 12\<rparr>)),
                       day_of_week = Num (of_int (dt_dayofweek \<lparr>instant = 3, dt_hour = 3, dt_dayofweek = 5, dt_month = 12\<rparr>)),
                       month = Num (of_int (dt_month \<lparr>instant = 3, dt_hour = 3, dt_dayofweek = 5, dt_month = 12\<rparr>)),
                       is_weekend = Num (if dt_dayofweek \<lparr>instant = 3, dt_hour = 3, dt_dayofweek = 5, dt_month = 12\<rparr> \<ge> 5 then 1 else 0)\<rparr>]"
    by (rule mp)
  then have r: "rows out =
          [\<lparr>timestamp = Some \<lparr>instant = 3, dt_hour = 3, dt_dayofweek = 5, dt_month = 12\<rparr>,
            page_views = Num 90, is_festival = Num 1,
            lag_1 = Num 110, lag_2 = Num 100,
            hour = Num 3, day_of_week = Num 5, month = Num 12, is_weekend = Num 1\<rparr>]"
    by simp
  have l0: "lag_1 (add_features (rows three_rows) ! 0) = Null"
    and l1: "lag_1 (add_features (rows three_rows) ! 1) = Num 100"
    and l2: "lag_2 (add_features (rows three_rows) ! 1) = Null"
    using l [rule_format, of 0] l [rule_format, of 1] unfolding rs by simp_all
  show ?thesis
    apply (rule exI [of _ out])
    using b l0 l1 l2 t unfolding r by (simp add: feature_frame_def rs)
qed

subsection \<open>The drift check\<close>

text \<open>
  C9, as amended. A drift check over a window of \<open>w\<close> rows, \<open>w\<close> at least 2 (20 in
  \<open>detect_drift\<close>), on a store with at least \<open>w + 2\<close> rows whose timestamp parses:
  \<open>load_recent_data\<close> keeps only the last \<open>w\<close> valid rows, and \<open>build_features\<close> computes
  \<open>lag_1\<close> and \<open>lag_2\<close> from the \<open>page_views\<close> of this slice alone and drops the slice's
  first two rows together with every later row that has a null cell. When no row of the slice
  lacks \<open>page_views\<close> or \<open>is_festival\<close>, the table that is evaluated has exactly \<open>w - 2\<close>
  rows, row \<open>i\<close> of it being row \<open>i + 2\<close> of the slice with the two rows before it as lags;
  for \<open>detect_drift\<close> the model is then given 18 rows, and the mean absolute error and the
  drift scores of the report are computed over these 18.
\<close>

theorem drift_window_has_w_minus_2_rows:
  assumes d: "data_csv fs = Some df0"
    and ts: "''timestamp'' \<in> set (columns df0)" and pv: "''page_views'' \<in> set (columns df0)"
    and w: "2 \<le> window"
    and n: "window + 2 \<le> int (length (filter (\<lambda>r. to_datetime (strip (timestamp r)) \<noteq> None) (rows df0)))"
  shows "\<exists>recent fs1 out.
           load_recent_data to_datetime fs window = (Inr recent, fs1)
         \<and> rows recent =
             tail window (sort_values_timestamp (dropna_timestamp (coerce_timestamps to_datetime (rows df0))))
         \<and> int (length (rows recent)) = window
         \<and> build_features recent = Inr out
         \<and> rows out = filter (row_complete (columns df0)) (drop 2 (add_features (rows recent)))
         \<and> ((\<forall>r \<in> set (rows recent). \<not> isna (page_views r) \<and> \<not> isna (is_festival r)) \<longrightarrow>
               rows out = drop 2 (add_features (rows recent))
             \<and> int (length (rows out)) = window - 2
             \<and> (\<forall>i < length (rows out).
                   timestamp (rows out ! i) = timestamp (rows recent ! (i + 2))
                 \<and> page_views (rows out ! i) = page_views (rows recent ! (i + 2))
                 \<and> lag_1 (rows out ! i) = page_views (rows recent ! (i + 1))
                 \<and> lag_2 (rows out ! i) = page_views (rows recent ! i))
             \<and> (window = 20 \<longrightarrow>
                   (\<forall>rep fs'. detect_drift to_datetime now fs = (Inr rep, fs') \<longrightarrow>
                      (\<exists>m y_pred. model_joblib fs = Some m
                         \<and> nrows (feature_frame (rows out)) = 18
                         \<and> list_all (\<lambda>(c, s). length s = 18) (cols (feature_frame (rows out)))
                         \<and> m (feature_frame (rows out)) = Inr y_pred
                         \<and> length y_pred = 18
                         \<and> mean_absolute_error (map page_views (rows out)) y_pred = Inr (mae rep)
                         \<and> drift_scores_of (cols (feature_frame (rows out))) = Inr (drift_scores rep)))))"
proof -
  let ?V = "sort_values_timestamp (dropna_timestamp (coerce_timestamps to_datetime (rows df0)))"
  let ?fs1 = "if filter isnat (coerce_timestamps to_datetime (rows df0)) \<noteq> []
              then fs\<lparr>stdout := stdout fs @
                         [Warning_invalid_timestamps (length (filter isnat (coerce_timestamps to_datetime (rows df0)))),
                          Bad_rows_saved],
                       bad_timestamp_rows_for_drift :=
                         Some \<lparr>columns = columns df0,
                               rows = filter isnat (coerce_timestamps to_datetime (rows df0))\<rparr>\<rparr>
              else fs"
  let ?recent = "\<lparr>columns = columns df0, rows = tail window ?V\<rparr>"
  let ?out = "\<lparr>columns = add_labels (columns df0),
               rows = filter (row_complete (columns df0)) (drop 2 (add_features (tail window ?V)))\<rparr>"
  have lenV: "window + 2 \<le> int (length ?V)" using n by (simp only: length_valid)
  have load: "load_recent_data to_datetime fs window = (Inr ?recent, ?fs1)"
    using lenV by (simp add: load_recent_data_result [OF d ts] Let_def)
  have lenr: "length (tail window ?V) = nat window"
    using w lenV by (intro length_tail) simp_all
  have bf: "build_features ?recent = Inr ?out"
    using build_features_result [of ?recent] pv ts by simp
  have tsr: "timestamp r \<noteq> None" if "r \<in> set (tail window ?V)" for r
    using that set_tail_subset [of window ?V] valid_rows_have_timestamp by blast
  have full: "rows ?out = drop 2 (add_features (tail window ?V))
             \<and> int (length (rows ?out)) = window - 2
             \<and> (\<forall>i < length (rows ?out).
                   timestamp (rows ?out ! i) = timestamp (tail window ?V ! (i + 2))
                 \<and> page_views (rows ?out ! i) = page_views (tail window ?V ! (i + 2))
                 \<and> lag_1 (rows ?out ! i) = page_views (tail window ?V ! (i + 1))
                 \<and> lag_2 (rows ?out ! i) = page_views (tail window ?V ! i))"
    if cpl: "\<forall>r \<in> set (tail window ?V). \<not> isna (page_views r) \<and> \<not> isna (is_festival r)"
  proof -
    have all: "\<forall>r \<in> set (tail window ?V). timestamp r \<noteq> None \<and> \<not> isna (page_views r) \<and> \<not> isna (is_festival r)"
      using cpl tsr by blast
    have eq: "rows ?out = drop 2 (add_features (tail window ?V))"
      using dropna_complete_history [OF all, of "columns df0"] by (simp add: dropna_first_two)
    have len: "int (length (rows ?out)) = window - 2"
      unfolding eq using w by (simp add: length_add_features lenr)
    have nth: "timestamp (rows ?out ! i) = timestamp (tail window ?V ! (i + 2))
                 \<and> page_views (rows ?out ! i) = page_views (tail window ?V ! (i + 2))
                 \<and> lag_1 (rows ?out ! i) = page_views (tail window ?V ! (i + 1))
                 \<and> lag_2 (rows ?out ! i) = page_views (tail window ?V ! i)"
      if "i < length (rows ?out)" for i
    proof -
      have i: "i + 2 < length (tail window ?V)"
        using that unfolding eq by (simp add: length_add_features)
      have ri: "rows ?out ! i = add_features (tail window ?V) ! (i + 2)"
        unfolding eq using i by (simp add: length_add_features add.commute)
      show ?thesis unfolding ri nth_add_features [OF i] by simp
    qed
    from eq len nth show ?thesis by blast
  qed
  have drift: "\<exists>m y_pred. model_joblib fs = Some m
                         \<and> nrows (feature_frame (rows ?out)) = 18
                         \<and> list_all (\<lambda>(c, s). length s = 18) (cols (feature_frame (rows ?out)))
                         \<and> m (feature_frame (rows ?out)) = Inr y_pred
                         \<and> length y_pred = 18
                         \<and> mean_absolute_error (map page_views (rows ?out)) y_pred = Inr (mae rep)
                         \<and> drift_scores_of (cols (feature_frame (rows ?out))) = Inr (drift_scores rep)"
    if cpl: "\<forall>r \<in> set (tail window ?V). \<not> isna (page_views r) \<and> \<not> isna (is_festival r)"
      and w20: "window = 20" and run: "detect_drift to_datetime now fs = (Inr rep, fs')" for rep fs'
  proof -
    from detect_drift_InrD [OF run] obtain recent fs1 out m y_pred where
      l: "load_recent_data to_datetime fs 20 = (Inr recent, fs1)"
      and b: "build_features recent = Inr out"
      and m: "model_joblib fs1 = Some m"
      and p: "m (feature_frame (rows out)) = Inr y_pred"
      and e: "mean_absolute_error (map page_views (rows out)) y_pred = Inr (mae rep)"
      and s: "drift_scores_of (cols (feature_frame (rows out))) = Inr (drift_scores rep)"
      by blast
    from l load w20 have r: "recent = ?recent" and "fs1 = ?fs1" by simp_all
    from b bf r have o: "out = ?out" by simp
    have mf: "model_joblib fs = Some m"
      using m load_recent_data_model [OF l] by simp
    from full [OF cpl] have "int (length (rows ?out)) = window - 2" by blast
    with w20 have len18: "length (rows ?out) = 18" by linarith
    have ly: "length y_pred = 18"
      using mean_absolute_error_InrD [OF e] len18 o by simp
    have cl: "list_all (\<lambda>(c, s). length s = 18) (cols (feature_frame (rows ?out)))"
      using cols_feature_frame_lengths [of "rows ?out"] by (simp only: len18)
    have nr: "nrows (feature_frame (rows ?out)) = 18"
      using len18 by (simp add: feature_frame_def)
    from mf nr cl p ly e s show ?thesis unfolding o by blast
  qed
  show ?thesis
    apply (rule exI [of _ ?recent])
    apply (rule exI [of _ ?fs1])
    apply (rule exI [of _ ?out])
    apply (intro conjI)
    subgoal by (rule load)
    subgoal by simp
    subgoal using lenr w by simp
    subgoal by (rule bf)
    subgoal by simp
    subgoal using full drift by (simp only: table.simps) blast
    done
qed

theorem drift_window_has_w_minus_2_rows_witness:
  "\<exists>recent fs1 out.
      load_recent_data hour_of_day example_fs 20 = (Inr recent, fs1)
    \<and> map page_views (rows recent) =
        map Num [102, 103, 104, 105, 106, 107, 108, 109, 110, 111, 112, 113, 114, 115, 116, 117,
                 118, 119, 120, 121]
    \<and> build_features recent = Inr out
    \<and> length (rows out) = 18
    \<and> page_views (rows out ! 0) = Num 104
    \<and> lag_1 (rows out ! 0) = Num 103
    \<and> lag_2 (rows out ! 0) = Num 102
    \<and> (\<exists>rep fs' m y_pred. detect_drift hour_of_day ''now'' example_fs = (Inr rep, fs')
          \<and> model_joblib example_fs = Some m
          \<and> nrows (feature_frame (rows out)) = 18
          \<and> m (feature_frame (rows out)) = Inr y_pred \<and> length y_pred = 18
          \<and> mean_absolute_error (map page_views (rows out)) y_pred = Inr (mae rep))"
proof -
  let ?V = "sort_values_timestamp (dropna_timestamp (coerce_timestamps hour_of_day (rows example_store)))"
  let ?rep = "\<lparr>report_timestamp = ''now'', mae = 25 / 2,
        drift_scores = [(''lag_1'', Num (17 / 2)), (''lag_2'', Num (17 / 2)), (''hour'', Num (17 / 2)),
                        (''day_of_week'', Num 0), (''month'', Num 0), (''is_weekend'', Num 0),
                        (''is_festival'', Num 0)],
        decision = NO_DRIFT\<rparr>"
  have d: "data_csv example_fs = Some example_store" by (simp add: example_fs_def)
  have ts: "''timestamp'' \<in> set (columns example_store)"
    and pv: "''page_views'' \<in> set (columns example_store)"
    by (simp_all add: example_store_def)
  have w: "(2::int) \<le> 20" by simp
  have n: "(20::int) + 2 \<le> int (length (filter (\<lambda>r. hour_of_day (strip (timestamp r)) \<noteq> None)
                                     (rows example_store)))"
    by code_simp
  have pvs: "map page_views (tail 20 ?V) =
        map Num [102, 103, 104, 105, 106, 107, 108, 109, 110, 111, 112, 113, 114, 115, 116, 117,
                 118, 119, 120, 121]"
    by code_simp
  have cpl: "list_all (\<lambda>r. \<not> isna (page_views r) \<and> \<not> isna (is_festival r)) (tail 20 ?V)"
    by code_simp
  have ev: "fst (detect_drift hour_of_day ''now'' example_fs) = Inr ?rep"
    by code_simp
  then have run: "detect_drift hour_of_day ''now'' example_fs =
                    (Inr ?rep, snd (detect_drift hour_of_day ''now'' example_fs))"
    by (metis prod.collapse)
  from drift_window_has_w_minus_2_rows [OF d ts pv w n, of "''now''"]
  obtain recent fs1 out where
    l: "load_recent_data hour_of_day example_fs 20 = (Inr recent, fs1)"
    and r: "rows recent = tail 20 ?V"
    and b: "build_features recent = Inr out"
    and imp: "(\<forall>r \<in> set (rows recent). \<not> isna (page_views r) \<and> \<not> isna (is_festival r)) \<longrightarrow>
               rows out = drop 2 (add_features (rows recent))
             \<and> int (length (rows out)) = 20 - 2
             \<and> (\<forall>i < length (rows out).
                   timestamp (rows out ! i) = timestamp (rows recent ! (i + 2))
                 \<and> page_views (rows out ! i) = page_views (rows recent ! (i + 2))
                 \<and> lag_1 (rows out ! i) = page_views (rows recent ! (i + 1))
                 \<and> lag_2 (rows out ! i) = page_views (rows recent ! i))
             \<and> ((20::int) = 20 \<longrightarrow>
                   (\<forall>rep fs'. detect_drift hour_of_day ''now'' example_fs = (Inr rep, fs') \<longrightarrow>
                      (\<exists>m y_pred. model_joblib example_fs = Some m
                         \<and> nrows (feature_frame (rows out)) = 18
                         \<and> list_all (\<lambda>(c, s). length s = 18) (cols (feature_frame (rows out)))
                         \<and> m (feature_frame (rows out)) = Inr y_pred
                         \<and> length y_pred = 18
                         \<and> mean_absolute_error (map page_views (rows out)) y_pred = Inr (mae rep)
                         \<and> drift_scores_of (cols (feature_frame (rows out))) = Inr (drift_scores rep))))"
    by blast
  have hyp: "\<forall>r \<in> set (rows recent). \<not> isna (page_views r) \<and> \<not> isna (is_festival r)"
    using cpl unfolding r list_all_iff .
  from imp hyp have len: "int (length (rows out)) = 20 - 2"
    and nth: "\<forall>i < length (rows out).
                   timestamp (rows out ! i) = timestamp (rows recent ! (i + 2))
                 \<and> page_views (rows out ! i) = page_views (rows recent ! (i + 2))
                 \<and> lag_1 (rows out ! i) = page_views (rows recent ! (i + 1))
                 \<and> lag_2 (rows out ! i) = page_views (rows recent ! i)"
    and dd: "\<forall>rep fs'. detect_drift hour_of_day ''now'' example_fs = (Inr rep, fs') \<longrightarrow>
                      (\<exists>m y_pred. model_joblib example_fs = Some m
                         \<and> nrows (feature_frame (rows out)) = 18
                         \<and> list_all (\<lambda>(c, s). length s = 18) (cols (feature_frame (rows out)))
                         \<and> m (feature_frame (rows out)) = Inr y_pred
                         \<and> length y_pred = 18
                         \<and> mean_absolute_error (map page_views (rows out)) y_pred = Inr (mae rep)
                         \<and> drift_scores_of (cols (feature_frame (rows out))) = Inr (drift_scores rep))"
    by blast+
  have len18: "length (rows out) = 18" using len by linarith
  have pvr: "map page_views (rows recent) =
        map Num [102, 103, 104, 105, 106, 107, 108, 109, 110, 111, 112, 113, 114, 115, 116, 117,
                 118, 119, 120, 121]"
    unfolding r by (rule pvs)
  have lr: "length (rows recent) = 20"
    using arg_cong [OF pvr, of length] by simp
  have at: "page_views (rows recent ! i) = map page_views (rows recent) ! i" if "i < 20" for i
    using that lr by simp
  have p0: "page_views (rows out ! 0) = Num 104" "lag_1 (rows out ! 0) = Num 103"
    "lag_2 (rows out ! 0) = Num 102"
    using nth [rule_format, of 0] len18 by (simp_all add: at pvr)
  from dd [rule_format, OF run] obtain m y_pred where
    "model_joblib example_fs = Some m" "nrows (feature_frame (rows out)) = 18"
    "m (feature_frame (rows out)) = Inr y_pred" "length y_pred = 18"
    "mean_absolute_error (map page_views (rows out)) y_pred = Inr (mae ?rep)"
    by blast
  with run have last: "\<exists>rep fs' m y_pred. detect_drift hour_of_day ''now'' example_fs = (Inr rep, fs')
          \<and> model_joblib example_fs = Some m
          \<and> nrows (feature_frame (rows out)) = 18
          \<and> m (feature_frame (rows out)) = Inr y_pred \<and> length y_pred = 18
          \<and> mean_absolute_error (map page_views (rows out)) y_pred = Inr (mae rep)"
    by blast
  from l pvr b len18 p0 last show ?thesis by blast
qed

text \<open>
  C9 as the claim states it, with the count \<open>w - 2\<close> for every window and every store of at
  least \<open>w + 2\<close> valid rows, does not hold. On the store of 22 valid rows whose row of hour
  10 has no \<open>page_views\<close>, the window of 20 leaves 15 rows, not 18: \<open>dropna\<close> also drops
  that row and the two rows that have it as a lag, and the drift check still returns a report.
  With a window of 1 on a store of 3 valid rows the one row of the slice is dropped and 0 rows
  are left, not \<open>1 - 2\<close>.
\<close>

theorem drift_window_row_count_counterexample:
  "length (filter (\<lambda>r. hour_of_day (strip (timestamp r)) \<noteq> None) (rows gap_store)) = 22
   \<and> \<not> isl (fst (load_recent_data hour_of_day gap_fs 20))
   \<and> length (rows (projr (fst (load_recent_data hour_of_day gap_fs 20)))) = 20
   \<and> \<not> isl (build_features (projr (fst (load_recent_data hour_of_day gap_fs 20))))
   \<and> length (rows (projr (build_features (projr (fst (load_recent_data hour_of_day gap_fs 20)))))) = 15
   \<and> int (length (rows (projr (build_features (projr (fst (load_recent_data hour_of_day gap_fs 20))))))) \<noteq>
       20 - 2
   \<and> \<not> isl (fst (detect_drift hour_of_day ''now'' gap_fs))
   \<and> length (filter (\<lambda>r. hour_of_day (strip (timestamp r)) \<noteq> None) (rows small_store)) = 3
   \<and> \<not> isl (fst (load_recent_data hour_of_day small_fs 1))
   \<and> length (rows (projr (fst (load_recent_data hour_of_day small_fs 1)))) = 1
   \<and> \<not> isl (build_features (projr (fst (load_recent_data hour_of_day small_fs 1))))
   \<and> length (rows (projr (build_features (projr (fst (load_recent_data hour_of_day small_fs 1)))))) = 0
   \<and> int (length (rows (projr (build_features (projr (fst (load_recent_data hour_of_day small_fs 1))))))) \<noteq>
       1 - 2"
  by code_simp

text \<open>
  C3. The report of a drift check that ends without an error: \<open>mae\<close> is the mean of the
  absolute differences between the true \<open>page_views\<close> of the evaluated rows and the model's
  predictions over their feature columns; there is one drift score for each feature column,
  in the order of the columns, the absolute difference between the mean of the column and
  its first cell; the decision is \<open>NO_DRIFT\<close> for \<open>mae < 50\<close>, \<open>MILD_DRIFT\<close> for
  \<open>50 \<le> mae < 120\<close> and \<open>SEVERE_DRIFT\<close> for \<open>mae \<ge> 120\<close>, so 49.9 is no drift, 50.0 and
  119.9 are mild and 120.0 is severe. The report is also what is written to
  \<open>drift_metrics.json\<close>.
\<close>

theorem detect_drift_report:
  assumes run: "detect_drift to_datetime now fs = (Inr rep, fs')"
  shows "(\<exists>recent fs1 out m y_pred ys.
            load_recent_data to_datetime fs 20 = (Inr recent, fs1)
          \<and> build_features recent = Inr out
          \<and> model_joblib fs = Some m
          \<and> m (feature_frame (rows out)) = Inr y_pred
          \<and> map page_views (rows out) = map Num ys \<and> ys \<noteq> [] \<and> length y_pred = length ys
          \<and> mae rep = sum_list (map2 (\<lambda>a b. \<bar>a - b\<bar>) ys y_pred) / real (length ys)
          \<and> map fst (drift_scores rep) =
              [''lag_1'', ''lag_2'', ''hour'', ''day_of_week'', ''month'', ''is_weekend'', ''is_festival'']
          \<and> list_all2
               (\<lambda>(c, s) (c', d). c' = c \<and> length s = length ys \<and> s = map Num (nums s)
                    \<and> d = Num \<bar>sum_list (nums s) / real (length s) - hd (nums s)\<bar>)
               (cols (feature_frame (rows out))) (drift_scores rep)
          \<and> drift_metrics fs' = Some rep)
       \<and> decision rep =
           (if mae rep < 50 then NO_DRIFT else if mae rep < 120 then MILD_DRIFT else SEVERE_DRIFT)
       \<and> drift_decision (499 / 10) = NO_DRIFT \<and> drift_decision 50 = MILD_DRIFT
       \<and> drift_decision (1199 / 10) = MILD_DRIFT \<and> drift_decision 120 = SEVERE_DRIFT"
proof -
  from detect_drift_InrD [OF run] obtain recent fs1 out m y_pred where
    l: "load_recent_data to_datetime fs 20 = (Inr recent, fs1)"
    and b: "build_features recent = Inr out"
    and m: "model_joblib fs1 = Some m"
    and fest: "''is_festival'' \<in> set (columns out)"
    and p: "m (feature_frame (rows out)) = Inr y_pred"
    and e: "mean_absolute_error (map page_views (rows out)) y_pred = Inr (mae rep)"
    and s: "drift_scores_of (cols (feature_frame (rows out))) = Inr (drift_scores rep)"
    and dec: "decision rep = drift_decision (mae rep)"
    and fs': "fs' = fs1\<lparr>drift_metrics := Some rep\<rparr>"
    by blast
  let ?rs = "rows out"
  let ?ys = "nums (map page_views ?rs)"
  have mf: "model_joblib fs = Some m"
    using m load_recent_data_model [OF l] by simp
  from mean_absolute_error_InrD [OF e]
  have ne: "?rs \<noteq> []" and ly: "length y_pred = length ?rs"
    and yt: "map page_views ?rs = map Num ?ys"
    and ev: "mae rep = sum_list (map2 (\<lambda>a b. \<bar>a - b\<bar>) ?ys y_pred) / real (length ?rs)"
    by simp_all
  have lys: "length ?ys = length ?rs"
    using yt by (metis length_map)
  from build_features_InrD [OF b]
  have co: "columns out = add_labels (columns recent)"
    and ro: "rows out = dropna (columns recent) (add_features (rows recent))"
    by simp_all
  have festr: "''is_festival'' \<in> set (columns recent)"
    using fest unfolding co set_add_labels by simp
  have cpl: "row_complete (columns recent) r" if "r \<in> set ?rs" for r
    using that unfolding ro dropna_def by simp
  have nn: "\<not> list_ex isna (map lag_1 ?rs)" "\<not> list_ex isna (map lag_2 ?rs)"
    "\<not> list_ex isna (map hour ?rs)" "\<not> list_ex isna (map day_of_week ?rs)"
    "\<not> list_ex isna (map month ?rs)" "\<not> list_ex isna (map is_weekend ?rs)"
    "\<not> list_ex isna (map is_festival ?rs)"
    using cpl festr by (auto intro!: no_null_column simp: row_complete_def)
  have ds: "drift_score (map f ?rs) =
              Inr (Num \<bar>sum_list (nums (map f ?rs)) / real (length (map f ?rs)) - hd (nums (map f ?rs))\<bar>)"
    if "\<not> list_ex isna (map f ?rs)" for f
    using ne by (intro drift_score_no_null [OF _ that]) simp
  have sc: "drift_scores rep =
              map (\<lambda>(c, s). (c, Num \<bar>sum_list (nums s) / real (length s) - hd (nums s)\<bar>))
                (cols (feature_frame ?rs))"
    using s by (simp add: feature_frame_def ds [OF nn(1)] ds [OF nn(2)] ds [OF nn(3)] ds [OF nn(4)]
          ds [OF nn(5)] ds [OF nn(6)] ds [OF nn(7)])
  have lab: "map fst (drift_scores rep) =
              [''lag_1'', ''lag_2'', ''hour'', ''day_of_week'', ''month'', ''is_weekend'', ''is_festival'']"
    unfolding sc by (simp add: feature_frame_def)
  have la2: "list_all2
               (\<lambda>(c, s) (c', d). c' = c \<and> length s = length ?ys \<and> s = map Num (nums s)
                    \<and> d = Num \<bar>sum_list (nums s) / real (length s) - hd (nums s)\<bar>)
               (cols (feature_frame ?rs)) (drift_scores rep)"
    unfolding sc lys
    using no_null_nums [OF nn(1)] no_null_nums [OF nn(2)] no_null_nums [OF nn(3)]
      no_null_nums [OF nn(4)] no_null_nums [OF nn(5)] no_null_nums [OF nn(6)] no_null_nums [OF nn(7)]
    by (simp add: feature_frame_def)
  have ysne: "?ys \<noteq> []" using ne lys by auto
  have first: "\<exists>recent fs1 out m y_pred ys.
            load_recent_data to_datetime fs 20 = (Inr recent, fs1)
          \<and> build_features recent = Inr out
          \<and> model_joblib fs = Some m
          \<and> m (feature_frame (rows out)) = Inr y_pred
          \<and> map page_views (rows out) = map Num ys \<and> ys \<noteq> [] \<and> length y_pred = length ys
          \<and> mae rep = sum_list (map2 (\<lambda>a b. \<bar>a - b\<bar>) ys y_pred) / real (length ys)
          \<and> map fst (drift_scores rep) =
              [''lag_1'', ''lag_2'', ''hour'', ''day_of_week'', ''month'', ''is_weekend'', ''is_festival'']
          \<and> list_all2
               (\<lambda>(c, s) (c', d). c' = c \<and> length s = length ys \<and> s = map Num (nums s)
                    \<and> d = Num \<bar>sum_list (nums s) / real (length s) - hd (nums s)\<bar>)
               (cols (feature_frame (rows out))) (drift_scores rep)
          \<and> drift_metrics fs' = Some rep"
    apply (rule exI [of _ recent])
    apply (rule exI [of _ fs1])
    apply (rule exI [of _ out])
    apply (rule exI [of _ m])
    apply (rule exI [of _ y_pred])
    apply (rule exI [of _ ?ys])
    using l b mf p yt ysne ly lys ev lab la2 fs' by simp
  have d1: "decision rep =
           (if mae rep < 50 then NO_DRIFT else if mae rep < 120 then MILD_DRIFT else SEVERE_DRIFT)"
    using dec by (simp add: drift_decision_def)
  have d2: "drift_decision (499 / 10) = NO_DRIFT \<and> drift_decision 50 = MILD_DRIFT
       \<and> drift_decision (1199 / 10) = MILD_DRIFT \<and> drift_decision 120 = SEVERE_DRIFT"
    by (simp add: drift_decision_def)
  from first d1 d2 show ?thesis by blast
qed

theorem detect_drift_report_witness:
  "\<exists>rep fs'. detect_drift hour_of_day ''now'' example_fs = (Inr rep, fs')
     \<and> mae rep = 25 / 2
     \<and> drift_scores rep =
         [(''lag_1'', Num (17 / 2)), (''lag_2'', Num (17 / 2)), (''hour'', Num (17 / 2)),
          (''day_of_week'', Num 0), (''month'', Num 0), (''is_weekend'', Num 0),
          (''is_festival'', Num 0)]
     \<and> decision rep = NO_DRIFT
     \<and> drift_metrics fs' = Some rep"
proof -
  let ?rep = "\<lparr>report_timestamp = ''now'', mae = 25 / 2,
        drift_scores = [(''lag_1'', Num (17 / 2)), (''lag_2'', Num (17 / 2)), (''hour'', Num (17 / 2)),
                        (''day_of_week'', Num 0), (''month'', Num 0), (''is_weekend'', Num 0),
                        (''is_festival'', Num 0)],
        decision = NO_DRIFT\<rparr>"
  have ev: "fst (detect_drift hour_of_day ''now'' example_fs) = Inr ?rep"
    by code_simp
  then have run: "detect_drift hour_of_day ''now'' example_fs =
                    (Inr ?rep, snd (detect_drift hour_of_day ''now'' example_fs))"
    by (metis prod.collapse)
  from detect_drift_report [OF run]
  have "drift_metrics (snd (detect_drift hour_of_day ''now'' example_fs)) = Some ?rep"
    and "decision ?rep =
           (if mae ?rep < 50 then NO_DRIFT else if mae ?rep < 120 then MILD_DRIFT else SEVERE_DRIFT)"
    by blast+
  with run show ?thesis
    by (intro exI [of _ ?rep] exI [of _ "snd (detect_drift hour_of_day ''now'' example_fs)"]) simp
qed

end
